theory Spec2Isabelle
  imports Main "HOL-Library.Word" "HOL-Library.Sublist"
begin

section \<open>Values of the Go program\<close>

text \<open>
  The file \<^verbatim>\<open>pkg/rpc/tx_blob.go\<close> builds, signs and sends a blob transaction.
  Go's \<^verbatim>\<open>*big.Int\<close> is \<open>int\<close> (a nil pointer is \<open>None\<close>), \<^verbatim>\<open>uint64\<close> is a 64-bit word,
  \<^verbatim>\<open>*uint256.Int\<close> a 256-bit word, \<^verbatim>\<open>[]byte\<close> a list of 8-bit words.
\<close>

type_synonym byte = "8 word"
type_synonym bytes = "byte list"
type_synonym uint64 = "64 word"
type_synonym uint256 = "256 word"
type_synonym Address = "160 word"
type_synonym Hash = "256 word"
type_synonym Blob = bytes
type_synonym Commitment = bytes
type_synonym Proof = bytes
type_synonym Context = nat

text \<open>
  Errors are values. \<open>ErrorsNew\<close> and \<open>Errorf\<close> are the errors this file creates with
  \<^verbatim>\<open>errors.New\<close> and \<^verbatim>\<open>fmt.Errorf\<close>; \<open>Upstream\<close> is an error handed back by a collaborator
  (the RPC client, the signer, the KZG library) and passed on unchanged; \<open>Panic\<close> is a
  run-time panic (a nil dereference, \<^verbatim>\<open>uint256.MustFromBig\<close> on overflow).
\<close>

datatype error = ErrorsNew string | Errorf string | Upstream string | Panic string

subsection \<open>Library arithmetic used by the file\<close>

text \<open>
  \<^verbatim>\<open>(*big.Int).Uint64\<close> returns the low 64 bits of the absolute value.
\<close>

definition big_Uint64 :: "int \<Rightarrow> uint64" where
  "big_Uint64 x = word_of_int \<bar>x\<bar>"

text \<open>
  \<^verbatim>\<open>uint256.NewInt\<close> widens a \<^verbatim>\<open>uint64\<close> to 256 bits.
\<close>

definition uint256_NewInt :: "uint64 \<Rightarrow> uint256" where
  "uint256_NewInt x = ucast x"

text \<open>
  \<^verbatim>\<open>(*uint256.Int).SetFromBig\<close> keeps the low four 64-bit limbs of the absolute value,
  negates the result (two's complement) when the argument is negative, and reports
  overflow when the absolute value has more than four limbs. The pair is the new value
  and the overflow flag.
\<close>

definition uint256_SetFromBig :: "int \<Rightarrow> uint256 \<times> bool" where
  "uint256_SetFromBig b =
     (let z = (word_of_int \<bar>b\<bar> :: uint256);
          overflow = (2 ^ 256 \<le> \<bar>b\<bar>)
      in (if b < 0 then - z else z, overflow))"

text \<open>
  \<^verbatim>\<open>uint256.MustFromBig\<close> panics with "overflow" when \<^verbatim>\<open>SetFromBig\<close> reports overflow.
\<close>

definition uint256_MustFromBig :: "int \<Rightarrow> error + uint256" where
  "uint256_MustFromBig b =
     (case uint256_SetFromBig b of
        (z, overflow) \<Rightarrow> if overflow then Inl (Panic ''overflow'') else Inr z)"

text \<open>
  \<^verbatim>\<open>fmt\<close>'s \<^verbatim>\<open>%v\<close> prints a \<^verbatim>\<open>*big.Int\<close> in decimal, with a leading minus sign when negative.
\<close>

definition digit_char :: "nat \<Rightarrow> char" where
  "digit_char d = ''0123456789'' ! d"

function nat_digits :: "nat \<Rightarrow> string" where
  "nat_digits n =
     (if n < 10 then [digit_char n] else nat_digits (n div 10) @ [digit_char (n mod 10)])"
  by pat_completeness auto
termination
  by (relation "measure id") auto

declare nat_digits.simps [simp del]

definition big_String :: "int \<Rightarrow> string" where
  "big_String i = (if i < 0 then CHR ''-'' # nat_digits (nat (- i)) else nat_digits (nat i))"

text \<open>
  Go's built-in \<^verbatim>\<open>copy(dst, src)\<close> overwrites the first \<open>min (len dst) (len src)\<close>
  elements of \<open>dst\<close>; the function returns the updated \<open>dst\<close>.
\<close>

definition copy_bytes :: "bytes \<Rightarrow> bytes \<Rightarrow> bytes" where
  "copy_bytes dst src = take (length dst) src @ drop (length src) dst"

subsection \<open>Records\<close>

text \<open>\<^verbatim>\<open>types.Header\<close>: the two fields the file reads, both pointers.\<close>

record Header =
  BaseFee :: "int option"
  ExcessBlobGas :: "uint64 option"

text \<open>\<^verbatim>\<open>ethereum.CallMsg\<close>: the fields the file writes in its literal.\<close>

record CallMsg =
  msg_From :: Address
  msg_To :: "Address option"
  msg_GasPrice :: "int option"
  msg_GasTipCap :: "int option"
  msg_GasFeeCap :: "int option"
  msg_Value :: "int option"
  msg_Data :: bytes

text \<open>\<^verbatim>\<open>types.BlobTxSidecar\<close>.\<close>

record BlobTxSidecar =
  Blobs :: "Blob list"
  Commitments :: "Commitment list"
  Proofs :: "Proof list"

text \<open>
  \<^verbatim>\<open>types.BlobTx\<close>. The signature values \<open>V\<close>, \<open>R\<close>, \<open>S\<close> are pointers, nil in the
  literal that \<^verbatim>\<open>createBlobTx\<close> writes.
\<close>

record BlobTx =
  tx_ChainID :: uint256
  tx_Nonce :: uint64
  tx_GasTipCap :: uint256
  tx_GasFeeCap :: uint256
  tx_Gas :: uint64
  tx_To :: Address
  tx_Value :: uint256
  tx_Data :: bytes
  tx_BlobFeeCap :: uint256
  tx_BlobHashes :: "Hash list"
  tx_Sidecar :: "BlobTxSidecar option"
  tx_V :: "uint256 option"
  tx_R :: "uint256 option"
  tx_S :: "uint256 option"

datatype Transaction = Tx (inner: BlobTx)

text \<open>
  \<^verbatim>\<open>types.NewTx\<close> stores a copy of the transaction data. The copy allocates \<open>V\<close>, \<open>R\<close>
  and \<open>S\<close>: where the original has a nil pointer, the copy holds zero.
\<close>

definition NewTx :: "BlobTx \<Rightarrow> Transaction" where
  "NewTx b =
     Tx (b\<lparr>tx_V := Some (case tx_V b of None \<Rightarrow> 0 | Some v \<Rightarrow> v),
           tx_R := Some (case tx_R b of None \<Rightarrow> 0 | Some r \<Rightarrow> r),
           tx_S := Some (case tx_S b of None \<Rightarrow> 0 | Some s \<Rightarrow> s)\<rparr>)"

text \<open>
  \<^verbatim>\<open>bind.TransactOpts\<close>. A collaborator reports failure by an error string;
  \<open>GasLimit = 0\<close> means "estimate".
\<close>

record TransactOpts =
  opts_From :: Address
  opts_Nonce :: "int option"
  opts_Signer :: "(Address \<Rightarrow> Transaction \<Rightarrow> string + Transaction) option"
  opts_Value :: "int option"
  opts_GasPrice :: "int option"
  opts_GasFeeCap :: "int option"
  opts_GasTipCap :: "int option"
  opts_GasLimit :: uint64
  opts_Context :: Context
  opts_NoSend :: bool

text \<open>
  The methods of \<^verbatim>\<open>EthClient\<close> that the file calls: the answers of the network.
\<close>

record EthClient =
  HeaderByNumber :: "Context \<Rightarrow> int option \<Rightarrow> string + Header"
  SuggestGasTipCap :: "Context \<Rightarrow> string + int"
  EstimateGas :: "Context \<Rightarrow> CallMsg \<Rightarrow> string + uint64"
  PendingNonceAt :: "Context \<Rightarrow> Address \<Rightarrow> string + uint64"
  ChainID :: "Context \<Rightarrow> string + int"
  SendTransaction :: "Context \<Rightarrow> Transaction \<Rightarrow> string option"

text \<open>
  The functions of go-ethereum's \<^verbatim>\<open>kzg4844\<close>, \<^verbatim>\<open>eip4844\<close> and \<^verbatim>\<open>types\<close> packages that the
  file calls. They are outside the repository and are taken as parameters.
\<close>

record Protocol =
  BlobToCommitment :: "Blob \<Rightarrow> string + Commitment"
  ComputeBlobProof :: "Blob \<Rightarrow> Commitment \<Rightarrow> string + Proof"
  CalcBlobHashV1 :: "Commitment \<Rightarrow> Hash"
  CalcBlobFee :: "uint64 \<Rightarrow> int"

text \<open>
  Every network call is recorded, in order, with its arguments.
\<close>

datatype Call =
    CallHeaderByNumber "int option"
  | CallSuggestGasTipCap
  | CallEstimateGas CallMsg
  | CallPendingNonceAt Address
  | CallChainID
  | CallSendTransaction Transaction

type_synonym 'a io = "Call list \<Rightarrow> (error + 'a) \<times> Call list"

definition ret :: "'a \<Rightarrow> 'a io" where
  "ret x = (\<lambda>s. (Inr x, s))"

definition fail :: "error \<Rightarrow> 'a io" where
  "fail e = (\<lambda>s. (Inl e, s))"

definition bind :: "'a io \<Rightarrow> ('a \<Rightarrow> 'b io) \<Rightarrow> 'b io" where
  "bind m f = (\<lambda>s. case m s of (Inl e, s') \<Rightarrow> (Inl e, s') | (Inr x, s') \<Rightarrow> f x s')"

text \<open>A network call: it is recorded, and its error, if any, is passed on.\<close>

definition rpc :: "Call \<Rightarrow> string + 'a \<Rightarrow> 'a io" where
  "rpc c r = (\<lambda>s. (case r of Inl e \<Rightarrow> Inl (Upstream e) | Inr x \<Rightarrow> Inr x, s @ [c]))"

text \<open>A local computation that may fail.\<close>

definition lift :: "error + 'a \<Rightarrow> 'a io" where
  "lift r = (\<lambda>s. (r, s))"

section \<open>The sidecar\<close>

text \<open>\<^verbatim>\<open>MakeSidecarWithSingleBlob\<close> (lines 157 to 177).\<close>

text \<open>
  Modelled from the spec: the constant \<^verbatim>\<open>BlobBytes\<close> is declared elsewhere in package
  \<^verbatim>\<open>rpc\<close>; the spec gives the blob capacity as 128 KiB.
\<close>

definition BlobBytes :: nat where
  "BlobBytes = 131072"

text \<open>\<^verbatim>\<open>kzg4844.Blob{}\<close>: the zero value of the array type \<^verbatim>\<open>[131072]byte\<close>.\<close>

definition zero_Blob :: Blob where
  "zero_Blob = replicate 131072 0"

definition MakeSidecarWithSingleBlob :: "Protocol \<Rightarrow> bytes \<Rightarrow> error + BlobTxSidecar" where
  "MakeSidecarWithSingleBlob p data =
     (if length data > BlobBytes then Inl (Errorf ''data is bigger than 128k'')
      else
        let blob = copy_bytes zero_Blob data in
        case BlobToCommitment p blob of
          Inl err \<Rightarrow> Inl (Upstream err)
        | Inr commitment \<Rightarrow>
            (case ComputeBlobProof p blob commitment of
               Inl err \<Rightarrow> Inl (Upstream err)
             | Inr proof \<Rightarrow>
                 Inr \<lparr>Blobs = [blob], Commitments = [commitment], Proofs = [proof]\<rparr>))"

text \<open>\<^verbatim>\<open>(*BlobTxSidecar).BlobHashes\<close>: one versioned hash per commitment.\<close>

definition BlobHashes :: "Protocol \<Rightarrow> BlobTxSidecar \<Rightarrow> Hash list" where
  "BlobHashes p sc = map (CalcBlobHashV1 p) (Commitments sc)"

section \<open>Building the transaction\<close>

text \<open>
  \<^verbatim>\<open>getNonce\<close> (lines 150 to 155) and \<^verbatim>\<open>createBlobTx\<close> (lines 45 to 148), statement by
  statement: the header, the tip cap, the fee cap, the fee-ordering check, the gas limit,
  the nonce, the chain id, the sidecar, the blob fee cap, the value, the recipient and the
  \<^verbatim>\<open>types.BlobTx\<close> literal. Every \<^verbatim>\<open>if err != nil { return nil, err }\<close> is the left branch of
  \<open>bind\<close>. The call \<^verbatim>\<open>sidecar.BlobHashes()\<close> of line 115, whose result is dropped, has no
  effect and is left out. \<^verbatim>\<open>new(big.Int).Mul\<close> dereferences \<^verbatim>\<open>header.BaseFee\<close>, so a header
  without a base fee is a panic when the fee cap has to be computed.
\<close>

definition getNonce :: "EthClient \<Rightarrow> TransactOpts \<Rightarrow> uint64 io" where
  "getNonce c opts =
     (case opts_Nonce opts of
        None \<Rightarrow> rpc (CallPendingNonceAt (opts_From opts))
                  (PendingNonceAt c (opts_Context opts) (opts_From opts))
      | Some n \<Rightarrow> ret (big_Uint64 n))"

definition createBlobTx ::
  "Protocol \<Rightarrow> EthClient \<Rightarrow> TransactOpts \<Rightarrow> Address option \<Rightarrow> bytes \<Rightarrow> bytes \<Rightarrow> Transaction io"
where
  "createBlobTx p c opts contract input blobData =
     bind (rpc (CallHeaderByNumber None) (HeaderByNumber c (opts_Context opts) None)) (\<lambda>header.
     bind (case opts_GasTipCap opts of
             None \<Rightarrow> rpc CallSuggestGasTipCap (SuggestGasTipCap c (opts_Context opts))
           | Some tip \<Rightarrow> ret tip) (\<lambda>gasTipCap.
     bind (case opts_GasFeeCap opts of
             None \<Rightarrow>
               (case BaseFee header of
                  None \<Rightarrow> fail (Panic ''runtime error: invalid memory address or nil pointer dereference'')
                | Some baseFee \<Rightarrow> ret (gasTipCap + baseFee * 2))
           | Some fee \<Rightarrow> ret fee) (\<lambda>gasFeeCap.
     if gasFeeCap < gasTipCap then
       fail (Errorf (''maxFeePerGas ('' @ big_String gasFeeCap @
                     '') < maxPriorityFeePerGas ('' @ big_String gasTipCap @ '')''))
     else
     bind (if opts_GasLimit opts = 0 then
             (let msg = \<lparr>msg_From = opts_From opts, msg_To = contract, msg_GasPrice = None,
                         msg_GasTipCap = Some gasTipCap, msg_GasFeeCap = Some gasFeeCap,
                         msg_Value = None, msg_Data = input\<rparr>
              in rpc (CallEstimateGas msg) (EstimateGas c (opts_Context opts) msg))
           else ret (opts_GasLimit opts)) (\<lambda>gasLimit.
     bind (case opts_Nonce opts of
             None \<Rightarrow> getNonce c opts
           | Some n \<Rightarrow> ret (big_Uint64 n)) (\<lambda>nonce.
     bind (rpc CallChainID (ChainID c (opts_Context opts))) (\<lambda>chainID.
     bind (lift (MakeSidecarWithSingleBlob p blobData)) (\<lambda>sidecar.
     let blobFeeCap = (case ExcessBlobGas header of None \<Rightarrow> 100066 | Some e \<Rightarrow> e);
         val = (case opts_Value opts of None \<Rightarrow> 0 | Some v \<Rightarrow> fst (uint256_SetFromBig v));
         addr = (case contract of None \<Rightarrow> 0 | Some a \<Rightarrow> a)
     in
     bind (lift (uint256_MustFromBig gasTipCap)) (\<lambda>tipCap256.
     bind (lift (uint256_MustFromBig gasFeeCap)) (\<lambda>feeCap256.
     bind (lift (uint256_MustFromBig (CalcBlobFee p blobFeeCap))) (\<lambda>blobFeeCap256.
     ret (NewTx
       \<lparr>tx_ChainID = uint256_NewInt (big_Uint64 chainID),
        tx_Nonce = nonce,
        tx_GasTipCap = tipCap256,
        tx_GasFeeCap = feeCap256,
        tx_Gas = gasLimit,
        tx_To = addr,
        tx_Value = val,
        tx_Data = input,
        tx_BlobFeeCap = blobFeeCap256,
        tx_BlobHashes = BlobHashes p sidecar,
        tx_Sidecar = Some sidecar,
        tx_V = None, tx_R = None, tx_S = None\<rparr>)))))))))))"

section \<open>Signing and sending\<close>

text \<open>
  \<^verbatim>\<open>TransactBlobTx\<close> (lines 18 to 43) returns a pair \<^verbatim>\<open>(*types.Transaction, error)\<close>; each component may
  be nil, so the result is a pair of options.
\<close>

definition TransactBlobTx ::
  "Protocol \<Rightarrow> EthClient \<Rightarrow> TransactOpts \<Rightarrow> Address option \<Rightarrow> bytes \<Rightarrow> bytes \<Rightarrow>
   Call list \<Rightarrow> (Transaction option \<times> error option) \<times> Call list"
where
  "TransactBlobTx p c opts contract input blobData s =
     (case opts_Signer opts of
        None \<Rightarrow> ((None, Some (ErrorsNew ''no signer to authorize the transaction with'')), s)
      | Some signer \<Rightarrow>
          (case createBlobTx p c opts contract input blobData s of
             (Inl err, s1) \<Rightarrow> ((None, Some err), s1)
           | (Inr rawTx, s1) \<Rightarrow>
               (case signer (opts_From opts) rawTx of
                  Inl err \<Rightarrow> ((None, Some (Upstream err)), s1)
                | Inr signedTx \<Rightarrow>
                    if opts_NoSend opts then ((Some signedTx, None), s1)
                    else
                      (case SendTransaction c (opts_Context opts) signedTx of
                         Some err \<Rightarrow>
                           ((None, Some (Upstream err)), s1 @ [CallSendTransaction signedTx])
                       | None \<Rightarrow>
                           ((Some signedTx, None), s1 @ [CallSendTransaction signedTx])))))"

section \<open>Notions used to state the properties\<close>

text \<open>
  The \<^verbatim>\<open>ethereum.CallMsg\<close> literal that \<^verbatim>\<open>createBlobTx\<close> passes to \<^verbatim>\<open>EstimateGas\<close>, as a
  function of the values it is built from. The blob data is not among them.
\<close>

definition gasEstimateMsg :: "TransactOpts \<Rightarrow> Address option \<Rightarrow> bytes \<Rightarrow> int \<Rightarrow> int \<Rightarrow> CallMsg" where
  "gasEstimateMsg opts contract input gasTipCap gasFeeCap =
     \<lparr>msg_From = opts_From opts, msg_To = contract, msg_GasPrice = None,
      msg_GasTipCap = Some gasTipCap, msg_GasFeeCap = Some gasFeeCap,
      msg_Value = None, msg_Data = input\<rparr>"

text \<open>
  The tip cap and the fee cap that \<^verbatim>\<open>createBlobTx\<close> settles on, read off its first lines:
  the override when there is one, otherwise the suggested tip, respectively the tip plus
  twice the base fee of the header (undefined when the header has no base fee).
\<close>

definition resolvedTipCap :: "EthClient \<Rightarrow> TransactOpts \<Rightarrow> string + int" where
  "resolvedTipCap c opts =
     (case opts_GasTipCap opts of
        None \<Rightarrow> SuggestGasTipCap c (opts_Context opts)
      | Some tip \<Rightarrow> Inr tip)"

definition resolvedFeeCap :: "TransactOpts \<Rightarrow> Header \<Rightarrow> int \<Rightarrow> int option" where
  "resolvedFeeCap opts header gasTipCap =
     (case opts_GasFeeCap opts of
        None \<Rightarrow> map_option (\<lambda>baseFee. gasTipCap + baseFee * 2) (BaseFee header)
      | Some fee \<Rightarrow> Some fee)"

text \<open>
  \<open>calls_within m A\<close>: whatever \<open>m\<close> returns, it only appends calls of the set \<open>A\<close>
  to the record of network calls.
\<close>

definition calls_within :: "'a io \<Rightarrow> Call set \<Rightarrow> bool" where
  "calls_within m A \<longleftrightarrow> (\<forall>s r s'. m s = (r, s') \<longrightarrow> (\<exists>t. s' = s @ t \<and> set t \<subseteq> A))"

text \<open>
  \<open>steps_succeed\<close>: every collaborator that \<^verbatim>\<open>createBlobTx\<close> turns to answers without an
  error, for the header \<open>header\<close>, the tip cap \<open>tip\<close> and the fee cap \<open>fee\<close>: the header is
  fetched, tip cap and fee cap are resolved and in order, the gas estimate (asked for only
  without a gas limit), the pending nonce (asked for only without an explicit nonce) and
  the chain id are delivered, the sidecar can be built, and tip cap, fee cap and blob fee
  fit into 256 bits. Nothing is asked of an explicit nonce, of the chain id or of the gas
  limit.
\<close>

definition steps_succeed ::
  "Protocol \<Rightarrow> EthClient \<Rightarrow> TransactOpts \<Rightarrow> Address option \<Rightarrow> bytes \<Rightarrow> bytes \<Rightarrow>
   Header \<Rightarrow> int \<Rightarrow> int \<Rightarrow> bool"
where
  "steps_succeed p c opts contract input blobData header tip fee \<longleftrightarrow>
     HeaderByNumber c (opts_Context opts) None = Inr header \<and>
     resolvedTipCap c opts = Inr tip \<and>
     resolvedFeeCap opts header tip = Some fee \<and>
     tip \<le> fee \<and>
     (opts_GasLimit opts = 0 \<longrightarrow>
        \<not> isl (EstimateGas c (opts_Context opts) (gasEstimateMsg opts contract input tip fee))) \<and>
     (opts_Nonce opts = None \<longrightarrow>
        \<not> isl (PendingNonceAt c (opts_Context opts) (opts_From opts))) \<and>
     \<not> isl (ChainID c (opts_Context opts)) \<and>
     \<not> isl (MakeSidecarWithSingleBlob p blobData) \<and>
     \<bar>tip\<bar> < 2 ^ 256 \<and>
     \<bar>fee\<bar> < 2 ^ 256 \<and>
     \<bar>CalcBlobFee p (case ExcessBlobGas header of None \<Rightarrow> 100066 | Some e \<Rightarrow> e)\<bar> < 2 ^ 256"

subsection \<open>A test double\<close>

definition example_header :: Header where
  "example_header = \<lparr>BaseFee = Some 7, ExcessBlobGas = Some 5\<rparr>"

definition example_client :: EthClient where
  "example_client =
     \<lparr>HeaderByNumber = (\<lambda>ctx n. Inr example_header),
      SuggestGasTipCap = (\<lambda>ctx. Inr 3),
      EstimateGas = (\<lambda>ctx msg. Inr 21000),
      PendingNonceAt = (\<lambda>ctx a. Inr 9),
      ChainID = (\<lambda>ctx. Inr 167),
      SendTransaction = (\<lambda>ctx tx. None)\<rparr>"

definition example_protocol :: Protocol where
  "example_protocol =
     \<lparr>BlobToCommitment = (\<lambda>blob. Inr [1]),
      ComputeBlobProof = (\<lambda>blob commitment. Inr [2]),
      CalcBlobHashV1 = (\<lambda>commitment. 3),
      CalcBlobFee = (\<lambda>excessBlobGas. 1 + uint excessBlobGas)\<rparr>"

definition example_signer :: "Address \<Rightarrow> Transaction \<Rightarrow> string + Transaction" where
  "example_signer from tx = Inr (Tx ((inner tx)\<lparr>tx_V := Some 1, tx_R := Some 2, tx_S := Some 3\<rparr>))"

definition example_opts :: TransactOpts where
  "example_opts =
     \<lparr>opts_From = 1, opts_Nonce = None, opts_Signer = Some example_signer,
      opts_Value = None, opts_GasPrice = None, opts_GasFeeCap = None,
      opts_GasTipCap = None, opts_GasLimit = 0, opts_Context = 0, opts_NoSend = False\<rparr>"

text \<open>
  The transaction that the test double builds from an empty input and an empty payload,
  the calls it makes on the way, and a client whose broadcast is refused.
\<close>

definition example_rawTx :: Transaction where
  "example_rawTx = NewTx
     \<lparr>tx_ChainID = 167, tx_Nonce = 9, tx_GasTipCap = 3, tx_GasFeeCap = 17, tx_Gas = 21000,
      tx_To = 0, tx_Value = 0, tx_Data = [], tx_BlobFeeCap = 6, tx_BlobHashes = [3],
      tx_Sidecar = Some \<lparr>Blobs = [copy_bytes zero_Blob []], Commitments = [[1]], Proofs = [[2]]\<rparr>,
      tx_V = None, tx_R = None, tx_S = None\<rparr>"

definition example_signedTx :: Transaction where
  "example_signedTx =
     Tx ((inner example_rawTx)\<lparr>tx_V := Some 1, tx_R := Some 2, tx_S := Some 3\<rparr>)"

definition example_trace :: "Call list" where
  "example_trace =
     [CallHeaderByNumber None, CallSuggestGasTipCap,
      CallEstimateGas (gasEstimateMsg example_opts None [] 3 17),
      CallPendingNonceAt 1, CallChainID]"

definition rejecting_client :: EthClient where
  "rejecting_client = example_client\<lparr>SendTransaction := (\<lambda>ctx tx. Some ''rejected'')\<rparr>"

section \<open>Basic facts\<close>

subsection \<open>Conversions\<close>

lemma uint256_MustFromBig_Inr:
  "uint256_MustFromBig b = Inr z \<longleftrightarrow> \<bar>b\<bar> < 2 ^ 256 \<and> z = word_of_int b"
  by (auto simp: uint256_MustFromBig_def uint256_SetFromBig_def Let_def)




lemma uint_big_Uint64: "uint (big_Uint64 x) = \<bar>x\<bar> mod 2 ^ 64"
  by (simp add: big_Uint64_def uint_word_of_int)

lemma copy_bytes_zero_Blob:
  "length data \<le> BlobBytes \<Longrightarrow>
   copy_bytes zero_Blob data = data @ replicate (BlobBytes - length data) 0"
  by (simp add: copy_bytes_def zero_Blob_def BlobBytes_def)

subsection \<open>The monad of recorded calls\<close>

lemma bind_Inr:
  "bind m f s = (Inr y, s') \<longleftrightarrow> (\<exists>x s1. m s = (Inr x, s1) \<and> f x s1 = (Inr y, s'))"
  by (auto simp: bind_def split: prod.splits sum.splits)


lemma rpc_Inr: "rpc k r s = (Inr x, s') \<longleftrightarrow> r = Inr x \<and> s' = s @ [k]"
  by (auto simp: rpc_def split: sum.splits)


lemma ret_Inr: "ret x s = (Inr y, s') \<longleftrightarrow> y = x \<and> s' = s"
  by (auto simp: ret_def)


lemma fail_Inr: "fail e s = (Inr y, s') \<longleftrightarrow> False"
  by (auto simp: fail_def)


lemma lift_Inr: "lift v s = (Inr x, s') \<longleftrightarrow> v = Inr x \<and> s' = s"
  by (auto simp: lift_def)


subsection \<open>Which calls a computation may add\<close>

lemma calls_within_ret: "calls_within (ret x) A"
  by (simp add: calls_within_def ret_def)

lemma calls_within_fail: "calls_within (fail e) A"
  by (simp add: calls_within_def fail_def)

lemma calls_within_lift: "calls_within (lift v) A"
  by (simp add: calls_within_def lift_def)

lemma calls_within_rpc: "k \<in> A \<Longrightarrow> calls_within (rpc k r) A"
  by (simp add: calls_within_def rpc_def)

lemma calls_within_bind:
  assumes "calls_within m A" and "\<And>x. calls_within (f x) A"
  shows "calls_within (bind m f) A"
  unfolding calls_within_def
proof (intro allI impI)
  fix s r s'
  assume run: "bind m f s = (r, s')"
  obtain r1 s1 where m: "m s = (r1, s1)"
    by (cases "m s")
  from assms(1) m obtain t1 where t1: "s1 = s @ t1" "set t1 \<subseteq> A"
    unfolding calls_within_def by blast
  show "\<exists>t. s' = s @ t \<and> set t \<subseteq> A"
  proof (cases r1)
    case (Inl e)
    with run m have "s' = s1"
      by (simp add: bind_def)
    with t1 show ?thesis by blast
  next
    case (Inr x)
    with run m have "f x s1 = (r, s')"
      by (simp add: bind_def)
    with assms(2) obtain t2 where "s' = s1 @ t2" "set t2 \<subseteq> A"
      unfolding calls_within_def by blast
    with t1 have "s' = s @ (t1 @ t2)" "set (t1 @ t2) \<subseteq> A"
      by simp_all
    then show ?thesis by blast
  qed
qed

lemma calls_within_if:
  "(b \<Longrightarrow> calls_within m A) \<Longrightarrow> (\<not> b \<Longrightarrow> calls_within n A) \<Longrightarrow>
   calls_within (if b then m else n) A"
  by simp

lemma calls_within_option:
  "(ov = None \<Longrightarrow> calls_within m A) \<Longrightarrow> (\<And>x. ov = Some x \<Longrightarrow> calls_within (f x) A) \<Longrightarrow>
   calls_within (case ov of None \<Rightarrow> m | Some x \<Rightarrow> f x) A"
  by (cases ov) simp_all

lemmas calls_within_intros =
  calls_within_bind calls_within_if calls_within_option calls_within_ret calls_within_fail
  calls_within_lift calls_within_rpc

text \<open>
  The calls of \<^verbatim>\<open>createBlobTx\<close>, whatever it returns: the header, the chain id, a tip
  suggestion only without a tip override, a gas estimate only without a gas limit, a
  pending nonce only without an explicit nonce.
\<close>

lemma createBlobTx_calls:
  "calls_within (createBlobTx p c opts contract input blobData)
     ({CallHeaderByNumber None, CallChainID}
      \<union> {k. k = CallSuggestGasTipCap \<and> opts_GasTipCap opts = None}
      \<union> {k. (\<exists>m. k = CallEstimateGas m) \<and> opts_GasLimit opts = 0}
      \<union> {k. k = CallPendingNonceAt (opts_From opts) \<and> opts_Nonce opts = None})"
  unfolding createBlobTx_def getNonce_def Let_def
  by (intro calls_within_intros) simp_all

subsection \<open>The stages of \<^verbatim>\<open>createBlobTx\<close>\<close>

lemma override_stage_Inr:
  "(case ov of None \<Rightarrow> rpc k r | Some t \<Rightarrow> ret (g t)) s = (Inr x, s1) \<longleftrightarrow>
     (case ov of None \<Rightarrow> r | Some t \<Rightarrow> Inr (g t)) = Inr x \<and>
     s1 = s @ (if ov = None then [k] else [])"
  by (auto simp: rpc_Inr ret_Inr split: option.splits)


lemma nonce_stage_Inr:
  "(case opts_Nonce opts of None \<Rightarrow> getNonce c opts | Some n \<Rightarrow> ret (big_Uint64 n)) s
     = (Inr x, s1) \<longleftrightarrow>
   (case opts_Nonce opts of
      None \<Rightarrow> PendingNonceAt c (opts_Context opts) (opts_From opts)
    | Some n \<Rightarrow> Inr (big_Uint64 n)) = Inr x \<and>
   s1 = s @ (if opts_Nonce opts = None then [CallPendingNonceAt (opts_From opts)] else [])"
  by (auto simp: getNonce_def rpc_Inr ret_Inr split: option.splits)


lemma fee_stage_Inr:
  "(case opts_GasFeeCap opts of
      None \<Rightarrow> (case BaseFee header of None \<Rightarrow> fail e | Some b \<Rightarrow> ret (tip + b * 2))
    | Some f \<Rightarrow> ret f) s = (Inr x, s1) \<longleftrightarrow>
     resolvedFeeCap opts header tip = Some x \<and> s1 = s"
  by (auto simp: resolvedFeeCap_def ret_Inr fail_Inr split: option.splits)


lemma gas_stage_Inr:
  "(if g = 0 then rpc k r else ret g) s = (Inr x, s1) \<longleftrightarrow>
     (if g = 0 then r else Inr g) = Inr x \<and> s1 = s @ (if g = 0 then [k] else [])"
  by (auto simp: rpc_Inr ret_Inr)


lemma check_stage_Inr:
  "(if b then fail e else m) s = (Inr x, s1) \<longleftrightarrow> \<not> b \<and> m s = (Inr x, s1)"
  by (auto simp: fail_Inr)



text \<open>What a successful run of \<^verbatim>\<open>createBlobTx\<close> has done.\<close>

lemma createBlobTx_Inr:
  assumes "createBlobTx p c opts contract input blobData s = (Inr tx, s')"
  shows "\<exists>header tip fee gas nonce cid sidecar t256 f256 b256.
     HeaderByNumber c (opts_Context opts) None = Inr header \<and>
     resolvedTipCap c opts = Inr tip \<and>
     resolvedFeeCap opts header tip = Some fee \<and>
     tip \<le> fee \<and>
     (if opts_GasLimit opts = 0
      then EstimateGas c (opts_Context opts) (gasEstimateMsg opts contract input tip fee)
      else Inr (opts_GasLimit opts)) = Inr gas \<and>
     (case opts_Nonce opts of
        None \<Rightarrow> PendingNonceAt c (opts_Context opts) (opts_From opts)
      | Some n \<Rightarrow> Inr (big_Uint64 n)) = Inr nonce \<and>
     ChainID c (opts_Context opts) = Inr cid \<and>
     MakeSidecarWithSingleBlob p blobData = Inr sidecar \<and>
     uint256_MustFromBig tip = Inr t256 \<and>
     uint256_MustFromBig fee = Inr f256 \<and>
     uint256_MustFromBig
       (CalcBlobFee p (case ExcessBlobGas header of None \<Rightarrow> 100066 | Some e \<Rightarrow> e)) = Inr b256 \<and>
     tx = NewTx
       \<lparr>tx_ChainID = uint256_NewInt (big_Uint64 cid),
        tx_Nonce = nonce,
        tx_GasTipCap = t256,
        tx_GasFeeCap = f256,
        tx_Gas = gas,
        tx_To = (case contract of None \<Rightarrow> 0 | Some a \<Rightarrow> a),
        tx_Value = (case opts_Value opts of None \<Rightarrow> 0 | Some v \<Rightarrow> fst (uint256_SetFromBig v)),
        tx_Data = input,
        tx_BlobFeeCap = b256,
        tx_BlobHashes = BlobHashes p sidecar,
        tx_Sidecar = Some sidecar,
        tx_V = None, tx_R = None, tx_S = None\<rparr> \<and>
     s' = s @ [CallHeaderByNumber None]
            @ (if opts_GasTipCap opts = None then [CallSuggestGasTipCap] else [])
            @ (if opts_GasLimit opts = 0
               then [CallEstimateGas (gasEstimateMsg opts contract input tip fee)] else [])
            @ (if opts_Nonce opts = None then [CallPendingNonceAt (opts_From opts)] else [])
            @ [CallChainID]"
  using assms
  unfolding createBlobTx_def Let_def gasEstimateMsg_def [symmetric] resolvedTipCap_def
  apply (simp only: bind_Inr override_stage_Inr nonce_stage_Inr fee_stage_Inr gas_stage_Inr
      check_stage_Inr rpc_Inr ret_Inr lift_Inr not_less)
  apply (elim exE conjE)
  apply (intro exI conjI)
  apply assumption+
  apply (simp only: append_assoc)
  done

text \<open>The converse: when every step succeeds, so does \<^verbatim>\<open>createBlobTx\<close>.\<close>

lemma createBlobTx_succeeds:
  assumes "HeaderByNumber c (opts_Context opts) None = Inr header"
    and "resolvedTipCap c opts = Inr tip"
    and "resolvedFeeCap opts header tip = Some fee"
    and "tip \<le> fee"
    and "(if opts_GasLimit opts = 0
          then EstimateGas c (opts_Context opts) (gasEstimateMsg opts contract input tip fee)
          else Inr (opts_GasLimit opts)) = Inr gas"
    and "(case opts_Nonce opts of
            None \<Rightarrow> PendingNonceAt c (opts_Context opts) (opts_From opts)
          | Some n \<Rightarrow> Inr (big_Uint64 n)) = Inr nonce"
    and "ChainID c (opts_Context opts) = Inr cid"
    and "MakeSidecarWithSingleBlob p blobData = Inr sidecar"
    and "uint256_MustFromBig tip = Inr t256"
    and "uint256_MustFromBig fee = Inr f256"
    and "uint256_MustFromBig
           (CalcBlobFee p (case ExcessBlobGas header of None \<Rightarrow> 100066 | Some e \<Rightarrow> e)) = Inr b256"
  shows "createBlobTx p c opts contract input blobData s =
     (Inr (NewTx
       \<lparr>tx_ChainID = uint256_NewInt (big_Uint64 cid),
        tx_Nonce = nonce,
        tx_GasTipCap = t256,
        tx_GasFeeCap = f256,
        tx_Gas = gas,
        tx_To = (case contract of None \<Rightarrow> 0 | Some a \<Rightarrow> a),
        tx_Value = (case opts_Value opts of None \<Rightarrow> 0 | Some v \<Rightarrow> fst (uint256_SetFromBig v)),
        tx_Data = input,
        tx_BlobFeeCap = b256,
        tx_BlobHashes = BlobHashes p sidecar,
        tx_Sidecar = Some sidecar,
        tx_V = None, tx_R = None, tx_S = None\<rparr>),
      s @ [CallHeaderByNumber None]
        @ (if opts_GasTipCap opts = None then [CallSuggestGasTipCap] else [])
        @ (if opts_GasLimit opts = 0
           then [CallEstimateGas (gasEstimateMsg opts contract input tip fee)] else [])
        @ (if opts_Nonce opts = None then [CallPendingNonceAt (opts_From opts)] else [])
        @ [CallChainID])"
  unfolding createBlobTx_def Let_def gasEstimateMsg_def [symmetric]
  apply (simp only: bind_Inr override_stage_Inr nonce_stage_Inr fee_stage_Inr gas_stage_Inr
      check_stage_Inr rpc_Inr ret_Inr lift_Inr not_less)
  using assms unfolding resolvedTipCap_def
  apply (simp split del: if_split)
  done



text \<open>The same facts, read off the fields of the returned transaction.\<close>

lemma createBlobTx_Inr_fields:
  assumes "createBlobTx p c opts contract input blobData s = (Inr tx, s')"
  obtains header tip fee cid sidecar where
    "HeaderByNumber c (opts_Context opts) None = Inr header"
    "resolvedTipCap c opts = Inr tip"
    "resolvedFeeCap opts header tip = Some fee"
    "tip \<le> fee"
    "(if opts_GasLimit opts = 0
      then EstimateGas c (opts_Context opts) (gasEstimateMsg opts contract input tip fee)
      else Inr (opts_GasLimit opts)) = Inr (tx_Gas (inner tx))"
    "(case opts_Nonce opts of
        None \<Rightarrow> PendingNonceAt c (opts_Context opts) (opts_From opts)
      | Some n \<Rightarrow> Inr (big_Uint64 n)) = Inr (tx_Nonce (inner tx))"
    "ChainID c (opts_Context opts) = Inr cid"
    "tx_ChainID (inner tx) = uint256_NewInt (big_Uint64 cid)"
    "MakeSidecarWithSingleBlob p blobData = Inr sidecar"
    "tx_Sidecar (inner tx) = Some sidecar"
    "tx_BlobHashes (inner tx) = BlobHashes p sidecar"
    "uint256_MustFromBig tip = Inr (tx_GasTipCap (inner tx))"
    "uint256_MustFromBig fee = Inr (tx_GasFeeCap (inner tx))"
    "uint256_MustFromBig
       (CalcBlobFee p (case ExcessBlobGas header of None \<Rightarrow> 100066 | Some e \<Rightarrow> e)) =
     Inr (tx_BlobFeeCap (inner tx))"
    "s' = s @ [CallHeaderByNumber None]
            @ (if opts_GasTipCap opts = None then [CallSuggestGasTipCap] else [])
            @ (if opts_GasLimit opts = 0
               then [CallEstimateGas (gasEstimateMsg opts contract input tip fee)] else [])
            @ (if opts_Nonce opts = None then [CallPendingNonceAt (opts_From opts)] else [])
            @ [CallChainID]"
proof -
  from createBlobTx_Inr [OF assms]
  obtain header tip fee gas nonce cid sidecar t256 f256 b256 where
    a: "HeaderByNumber c (opts_Context opts) None = Inr header"
      "resolvedTipCap c opts = Inr tip"
      "resolvedFeeCap opts header tip = Some fee"
      "tip \<le> fee"
      "(if opts_GasLimit opts = 0
        then EstimateGas c (opts_Context opts) (gasEstimateMsg opts contract input tip fee)
        else Inr (opts_GasLimit opts)) = Inr gas"
      "(case opts_Nonce opts of
          None \<Rightarrow> PendingNonceAt c (opts_Context opts) (opts_From opts)
        | Some n \<Rightarrow> Inr (big_Uint64 n)) = Inr nonce"
      "ChainID c (opts_Context opts) = Inr cid"
      "MakeSidecarWithSingleBlob p blobData = Inr sidecar"
      "uint256_MustFromBig tip = Inr t256"
      "uint256_MustFromBig fee = Inr f256"
      "uint256_MustFromBig
         (CalcBlobFee p (case ExcessBlobGas header of None \<Rightarrow> 100066 | Some e \<Rightarrow> e)) = Inr b256"
    and tx: "tx = NewTx
       \<lparr>tx_ChainID = uint256_NewInt (big_Uint64 cid),
        tx_Nonce = nonce,
        tx_GasTipCap = t256,
        tx_GasFeeCap = f256,
        tx_Gas = gas,
        tx_To = (case contract of None \<Rightarrow> 0 | Some a \<Rightarrow> a),
        tx_Value = (case opts_Value opts of None \<Rightarrow> 0 | Some v \<Rightarrow> fst (uint256_SetFromBig v)),
        tx_Data = input,
        tx_BlobFeeCap = b256,
        tx_BlobHashes = BlobHashes p sidecar,
        tx_Sidecar = Some sidecar,
        tx_V = None, tx_R = None, tx_S = None\<rparr>"
    and s': "s' = s @ [CallHeaderByNumber None]
            @ (if opts_GasTipCap opts = None then [CallSuggestGasTipCap] else [])
            @ (if opts_GasLimit opts = 0
               then [CallEstimateGas (gasEstimateMsg opts contract input tip fee)] else [])
            @ (if opts_Nonce opts = None then [CallPendingNonceAt (opts_From opts)] else [])
            @ [CallChainID]"
    apply (elim exE conjE)
    apply (erule meta_allE meta_impE | assumption)+
    done
  have fields:
    "tx_Gas (inner tx) = gas" "tx_Nonce (inner tx) = nonce"
    "tx_ChainID (inner tx) = uint256_NewInt (big_Uint64 cid)"
    "tx_Sidecar (inner tx) = Some sidecar"
    "tx_BlobHashes (inner tx) = BlobHashes p sidecar"
    "tx_GasTipCap (inner tx) = t256" "tx_GasFeeCap (inner tx) = f256"
    "tx_BlobFeeCap (inner tx) = b256"
    by (simp_all add: tx NewTx_def)
  show thesis
    by (rule that [of header tip fee cid sidecar]) (simp_all only: a fields s')
qed

text \<open>When every step succeeds, \<^verbatim>\<open>createBlobTx\<close> returns a transaction.\<close>

lemma steps_succeed_run:
  assumes "steps_succeed p c opts contract input blobData header tip fee"
  obtains tx s' where "createBlobTx p c opts contract input blobData s = (Inr tx, s')"
proof -
  from assms have H: "HeaderByNumber c (opts_Context opts) None = Inr header"
    and T: "resolvedTipCap c opts = Inr tip"
    and F: "resolvedFeeCap opts header tip = Some fee"
    and le: "tip \<le> fee"
    and G0: "opts_GasLimit opts = 0 \<longrightarrow>
        \<not> isl (EstimateGas c (opts_Context opts) (gasEstimateMsg opts contract input tip fee))"
    and N0: "opts_Nonce opts = None \<longrightarrow>
        \<not> isl (PendingNonceAt c (opts_Context opts) (opts_From opts))"
    and C0: "\<not> isl (ChainID c (opts_Context opts))"
    and S0: "\<not> isl (MakeSidecarWithSingleBlob p blobData)"
    and bt: "\<bar>tip\<bar> < 2 ^ 256"
    and bf: "\<bar>fee\<bar> < 2 ^ 256"
    and bb: "\<bar>CalcBlobFee p (case ExcessBlobGas header of None \<Rightarrow> 100066 | Some e \<Rightarrow> e)\<bar>
               < 2 ^ 256"
    by (simp_all add: steps_succeed_def)
  from G0 have "\<exists>gas. (if opts_GasLimit opts = 0
      then EstimateGas c (opts_Context opts) (gasEstimateMsg opts contract input tip fee)
      else Inr (opts_GasLimit opts)) = Inr gas"
    by (cases "EstimateGas c (opts_Context opts) (gasEstimateMsg opts contract input tip fee)")
       auto
  then obtain gas where G: "(if opts_GasLimit opts = 0
      then EstimateGas c (opts_Context opts) (gasEstimateMsg opts contract input tip fee)
      else Inr (opts_GasLimit opts)) = Inr gas" ..
  from N0 have "\<exists>nonce. (case opts_Nonce opts of
        None \<Rightarrow> PendingNonceAt c (opts_Context opts) (opts_From opts)
      | Some n \<Rightarrow> Inr (big_Uint64 n)) = Inr nonce"
    by (cases "PendingNonceAt c (opts_Context opts) (opts_From opts)")
       (auto split: option.splits)
  then obtain nonce where N: "(case opts_Nonce opts of
        None \<Rightarrow> PendingNonceAt c (opts_Context opts) (opts_From opts)
      | Some n \<Rightarrow> Inr (big_Uint64 n)) = Inr nonce" ..
  from C0 have "\<exists>cid. ChainID c (opts_Context opts) = Inr cid"
    by (cases "ChainID c (opts_Context opts)") auto
  then obtain cid where C: "ChainID c (opts_Context opts) = Inr cid" ..
  from S0 have "\<exists>sidecar. MakeSidecarWithSingleBlob p blobData = Inr sidecar"
    by (cases "MakeSidecarWithSingleBlob p blobData") auto
  then obtain sidecar where S: "MakeSidecarWithSingleBlob p blobData = Inr sidecar" ..
  from bt have t256: "uint256_MustFromBig tip = Inr (word_of_int tip)"
    by (simp add: uint256_MustFromBig_Inr)
  from bf have f256: "uint256_MustFromBig fee = Inr (word_of_int fee)"
    by (simp add: uint256_MustFromBig_Inr)
  from bb have b256: "uint256_MustFromBig
       (CalcBlobFee p (case ExcessBlobGas header of None \<Rightarrow> 100066 | Some e \<Rightarrow> e)) =
     Inr (word_of_int
       (CalcBlobFee p (case ExcessBlobGas header of None \<Rightarrow> 100066 | Some e \<Rightarrow> e)))"
    by (simp add: uint256_MustFromBig_Inr)
  from createBlobTx_succeeds [OF H T F le G N C S t256 f256 b256, where s = s]
  show thesis
    by (rule that)
qed

text \<open>
  A successful run determines header, tip cap and fee cap: they are those of
  \<open>steps_succeed\<close>.
\<close>

lemma steps_succeed_unique:
  assumes "steps_succeed p c opts contract input blobData header tip fee"
    and "HeaderByNumber c (opts_Context opts) None = Inr header'"
    and "resolvedTipCap c opts = Inr tip'"
    and "resolvedFeeCap opts header' tip' = Some fee'"
  shows "header' = header \<and> tip' = tip \<and> fee' = fee"
  using assms by (simp add: steps_succeed_def)

text \<open>The run that \<open>steps_succeed\<close> promises, with the fields of its transaction.\<close>

lemma steps_succeed_fields:
  assumes "steps_succeed p c opts contract input blobData header tip fee"
  obtains tx s' where
    "createBlobTx p c opts contract input blobData s = (Inr tx, s')"
    "tx_GasTipCap (inner tx) = word_of_int tip"
    "tx_GasFeeCap (inner tx) = word_of_int fee"
    "tx_BlobFeeCap (inner tx) =
       word_of_int (CalcBlobFee p (case ExcessBlobGas header of None \<Rightarrow> 100066 | Some e \<Rightarrow> e))"
    "(if opts_GasLimit opts = 0
      then EstimateGas c (opts_Context opts) (gasEstimateMsg opts contract input tip fee)
      else Inr (opts_GasLimit opts)) = Inr (tx_Gas (inner tx))"
    "(case opts_Nonce opts of
        None \<Rightarrow> PendingNonceAt c (opts_Context opts) (opts_From opts)
      | Some n \<Rightarrow> Inr (big_Uint64 n)) = Inr (tx_Nonce (inner tx))"
    "s' = s @ [CallHeaderByNumber None]
            @ (if opts_GasTipCap opts = None then [CallSuggestGasTipCap] else [])
            @ (if opts_GasLimit opts = 0
               then [CallEstimateGas (gasEstimateMsg opts contract input tip fee)] else [])
            @ (if opts_Nonce opts = None then [CallPendingNonceAt (opts_From opts)] else [])
            @ [CallChainID]"
proof -
  from assms obtain tx s' where
    run: "createBlobTx p c opts contract input blobData s = (Inr tx, s')"
    by (rule steps_succeed_run)
  from run show thesis
  proof (rule createBlobTx_Inr_fields)
    fix header' tip' fee'
    assume H: "HeaderByNumber c (opts_Context opts) None = Inr header'"
      and T: "resolvedTipCap c opts = Inr tip'"
      and F: "resolvedFeeCap opts header' tip' = Some fee'"
      and G: "(if opts_GasLimit opts = 0
          then EstimateGas c (opts_Context opts) (gasEstimateMsg opts contract input tip' fee')
          else Inr (opts_GasLimit opts)) = Inr (tx_Gas (inner tx))"
      and N: "(case opts_Nonce opts of
            None \<Rightarrow> PendingNonceAt c (opts_Context opts) (opts_From opts)
          | Some n \<Rightarrow> Inr (big_Uint64 n)) = Inr (tx_Nonce (inner tx))"
      and t256: "uint256_MustFromBig tip' = Inr (tx_GasTipCap (inner tx))"
      and f256: "uint256_MustFromBig fee' = Inr (tx_GasFeeCap (inner tx))"
      and b256: "uint256_MustFromBig
         (CalcBlobFee p (case ExcessBlobGas header' of None \<Rightarrow> 100066 | Some e \<Rightarrow> e)) =
         Inr (tx_BlobFeeCap (inner tx))"
      and s': "s' = s @ [CallHeaderByNumber None]
            @ (if opts_GasTipCap opts = None then [CallSuggestGasTipCap] else [])
            @ (if opts_GasLimit opts = 0
               then [CallEstimateGas (gasEstimateMsg opts contract input tip' fee')] else [])
            @ (if opts_Nonce opts = None then [CallPendingNonceAt (opts_From opts)] else [])
            @ [CallChainID]"
    from steps_succeed_unique [OF assms H T F]
    have eq: "header' = header" "tip' = tip" "fee' = fee"
      by simp_all
    from t256 have tip: "tx_GasTipCap (inner tx) = word_of_int tip"
      by (simp add: uint256_MustFromBig_Inr eq)
    from f256 have fee: "tx_GasFeeCap (inner tx) = word_of_int fee"
      by (simp add: uint256_MustFromBig_Inr eq)
    from b256 have blob: "tx_BlobFeeCap (inner tx) =
       word_of_int (CalcBlobFee p (case ExcessBlobGas header of None \<Rightarrow> 100066 | Some e \<Rightarrow> e))"
      by (simp add: uint256_MustFromBig_Inr eq)
    show thesis
      by (rule that [OF run tip fee blob G [unfolded eq] N s' [unfolded eq]])
  qed
qed

text \<open>The test double succeeds at every step.\<close>

lemmas steps_defs =
  steps_succeed_def resolvedTipCap_def resolvedFeeCap_def gasEstimateMsg_def
  MakeSidecarWithSingleBlob_def BlobBytes_def
  example_protocol_def example_client_def example_opts_def example_header_def

subsection \<open>The test double, evaluated\<close>

lemmas io_defs = bind_def rpc_def ret_def fail_def lift_def

lemmas example_defs =
  example_protocol_def example_client_def example_opts_def example_header_def
  example_signer_def example_rawTx_def example_signedTx_def example_trace_def
  rejecting_client_def gasEstimateMsg_def

lemmas eval_defs =
  createBlobTx_def getNonce_def MakeSidecarWithSingleBlob_def BlobBytes_def BlobHashes_def
  uint256_MustFromBig_def uint256_SetFromBig_def big_Uint64_def uint256_NewInt_def NewTx_def


lemma rejecting_createBlobTx:
  "createBlobTx example_protocol rejecting_client example_opts None [] [] [] =
     (Inr example_rawTx, example_trace)"
  by (simp add: eval_defs io_defs example_defs)

lemma example_opts_signer: "opts_Signer example_opts = Some example_signer"
  by (simp add: example_opts_def)

lemma example_signer_signs:
  "example_signer (opts_From example_opts) example_rawTx = Inr example_signedTx"
  by (simp add: example_signer_def example_signedTx_def)

lemma example_opts_sends: "\<not> opts_NoSend example_opts"
  by (simp add: example_opts_def)

lemma rejecting_client_refuses:
  "SendTransaction rejecting_client (opts_Context example_opts) example_signedTx =
     Some ''rejected''"
  by (simp add: rejecting_client_def)

section \<open>The sidecar builder\<close>

text \<open>
  Claim C2, as amended. A payload longer than the blob capacity of 128 KiB makes
  \<^verbatim>\<open>MakeSidecarWithSingleBlob\<close> fail, before any commitment is computed, with the fixed
  message "data is bigger than 128k": the message names the limit and is the same for
  every oversized payload.
\<close>

theorem MakeSidecarWithSingleBlob_too_large:
  "BlobBytes < length data \<Longrightarrow>
   MakeSidecarWithSingleBlob p data = Inl (Errorf ''data is bigger than 128k'')"
  by (simp add: MakeSidecarWithSingleBlob_def)

theorem MakeSidecarWithSingleBlob_too_large_witness:
  "BlobBytes < length (replicate 131073 (0 :: byte)) \<and>
   MakeSidecarWithSingleBlob example_protocol (replicate 131073 0) =
     Inl (Errorf ''data is bigger than 128k'')"
proof -
  have big: "BlobBytes < length (replicate 131073 (0 :: byte))"
    by (simp add: BlobBytes_def)
  show ?thesis
    using big MakeSidecarWithSingleBlob_too_large [OF big, of example_protocol] by simp
qed

text \<open>
  Claim C2 as the specification words it fails: for a payload of 131073 bytes the error
  message does not contain the payload length.
\<close>

theorem MakeSidecarWithSingleBlob_message_counterexample:
  "MakeSidecarWithSingleBlob example_protocol (replicate 131073 0) =
     Inl (Errorf ''data is bigger than 128k'') \<and>
   big_String (int (length (replicate 131073 (0 :: byte)))) = ''131073'' \<and>
   \<not> sublist ''131073'' ''data is bigger than 128k''"
  by (simp add: MakeSidecarWithSingleBlob_def BlobBytes_def big_String_def nat_digits.simps
      digit_char_def sublist_Cons_right prefix_Cons)

text \<open>
  Claim C5. A payload of at most \<open>BlobBytes\<close> bytes, for which the commitment and the
  proof can be computed, gives a sidecar with exactly one blob, the payload followed by
  zeros up to the capacity, exactly one commitment, computed from that blob, and exactly
  one proof, computed from that blob and that commitment.
\<close>

theorem MakeSidecarWithSingleBlob_single_blob:
  assumes "length data \<le> BlobBytes"
    and "BlobToCommitment p (data @ replicate (BlobBytes - length data) 0) = Inr commitment"
    and "ComputeBlobProof p (data @ replicate (BlobBytes - length data) 0) commitment = Inr pf"
  shows "MakeSidecarWithSingleBlob p data =
           Inr \<lparr>Blobs = [data @ replicate (BlobBytes - length data) 0],
                Commitments = [commitment], Proofs = [pf]\<rparr> \<and>
         length (data @ replicate (BlobBytes - length data) 0) = BlobBytes"
  using assms by (simp add: MakeSidecarWithSingleBlob_def copy_bytes_zero_Blob)

theorem MakeSidecarWithSingleBlob_single_blob_witness:
  "MakeSidecarWithSingleBlob example_protocol [1, 2, 3] =
     Inr \<lparr>Blobs = [[1, 2, 3] @ replicate (BlobBytes - 3) 0],
          Commitments = [[1]], Proofs = [[2]]\<rparr>"
  using MakeSidecarWithSingleBlob_single_blob [of "[1, 2, 3]" example_protocol "[1]" "[2]"]
  by (simp add: example_protocol_def BlobBytes_def)

section \<open>Signing and sending\<close>

text \<open>
  Claim C4. Without a signer, \<^verbatim>\<open>TransactBlobTx\<close> returns no transaction and the error
  "no signer to authorize the transaction with", whatever the client, the protocol
  functions and the other arguments are, and the record of network calls is unchanged:
  nothing was assembled and no call was made.
\<close>

theorem TransactBlobTx_no_signer:
  "opts_Signer opts = None \<Longrightarrow>
   TransactBlobTx p c opts contract input blobData s =
     ((None, Some (ErrorsNew ''no signer to authorize the transaction with'')), s)"
  by (simp add: TransactBlobTx_def)

theorem TransactBlobTx_no_signer_witness:
  "opts_Signer (example_opts\<lparr>opts_Signer := None\<rparr>) = None \<and>
   TransactBlobTx example_protocol example_client (example_opts\<lparr>opts_Signer := None\<rparr>)
       None [] [] [] =
     ((None, Some (ErrorsNew ''no signer to authorize the transaction with'')), [])"
  using TransactBlobTx_no_signer
    [of "example_opts\<lparr>opts_Signer := None\<rparr>" example_protocol example_client None "[]" "[]" "[]"]
  by simp

text \<open>
  Claim C1, as amended. When the transaction is built and signed, sending is requested
  and the broadcast fails, \<^verbatim>\<open>TransactBlobTx\<close> returns the broadcast error and no
  transaction; the signed transaction appears only as the argument of the recorded
  broadcast call.
\<close>

theorem TransactBlobTx_send_failure:
  assumes "opts_Signer opts = Some signer"
    and "createBlobTx p c opts contract input blobData s = (Inr rawTx, s1)"
    and "signer (opts_From opts) rawTx = Inr signedTx"
    and "\<not> opts_NoSend opts"
    and "SendTransaction c (opts_Context opts) signedTx = Some err"
  shows "TransactBlobTx p c opts contract input blobData s =
           ((None, Some (Upstream err)), s1 @ [CallSendTransaction signedTx])"
  using assms by (simp add: TransactBlobTx_def)

theorem TransactBlobTx_send_failure_witness:
  "fst (TransactBlobTx example_protocol rejecting_client example_opts None [] [] []) =
     (None, Some (Upstream ''rejected''))"
  using TransactBlobTx_send_failure
    [OF example_opts_signer rejecting_createBlobTx example_signer_signs example_opts_sends
        rejecting_client_refuses]
  by simp

text \<open>
  Claim C1 as the specification words it fails: the test double signs the transaction,
  the broadcast of the signed transaction is refused, and the call returns the error
  without the signed transaction.
\<close>

theorem TransactBlobTx_send_failure_counterexample:
  "TransactBlobTx example_protocol rejecting_client example_opts None [] [] [] =
     ((None, Some (Upstream ''rejected'')),
      example_trace @ [CallSendTransaction example_signedTx])"
  by (simp add: TransactBlobTx_def rejecting_createBlobTx example_opts_signer
      example_signer_signs example_opts_sends rejecting_client_refuses)

section \<open>Fee parameters\<close>





text \<open>
  Claim C6. In the transaction that \<^verbatim>\<open>createBlobTx\<close> returns, the fee cap is the override
  when there is one, and otherwise the resolved tip cap plus twice the base fee of the
  fetched header; it is at most \<open>2\<^sup>2\<^sup>5\<^sup>6 - 1\<close> in absolute value and stored converted to
  256 bits. Without a gas limit, the same value is the fee cap of the gas estimate. And
  \<^verbatim>\<open>createBlobTx\<close> does return such a transaction when every step succeeds: without an
  override for a header with a base fee, and with any override.
\<close>

theorem createBlobTx_fee_cap:
  "(\<forall>tx s'. createBlobTx p c opts contract input blobData s = (Inr tx, s') \<longrightarrow>
      (\<exists>header tip fee.
         HeaderByNumber c (opts_Context opts) None = Inr header \<and>
         resolvedTipCap c opts = Inr tip \<and>
         (opts_GasFeeCap opts = None \<longrightarrow>
            (\<exists>baseFee. BaseFee header = Some baseFee \<and> fee = tip + 2 * baseFee)) \<and>
         (\<forall>f. opts_GasFeeCap opts = Some f \<longrightarrow> fee = f) \<and>
         \<bar>fee\<bar> < 2 ^ 256 \<and>
         tx_GasFeeCap (inner tx) = word_of_int fee \<and>
         tx_GasTipCap (inner tx) = word_of_int tip \<and>
         (opts_GasLimit opts = 0 \<longrightarrow>
            CallEstimateGas (gasEstimateMsg opts contract input tip fee) \<in> set s'))) \<and>
   (\<forall>header tip baseFee.
      opts_GasFeeCap opts = None \<and> BaseFee header = Some baseFee \<and>
      steps_succeed p c opts contract input blobData header tip (tip + 2 * baseFee) \<longrightarrow>
      (\<exists>tx s'. createBlobTx p c opts contract input blobData s = (Inr tx, s') \<and>
         tx_GasFeeCap (inner tx) = word_of_int (tip + 2 * baseFee))) \<and>
   (\<forall>header tip f.
      opts_GasFeeCap opts = Some f \<and>
      steps_succeed p c opts contract input blobData header tip f \<longrightarrow>
      (\<exists>tx s'. createBlobTx p c opts contract input blobData s = (Inr tx, s') \<and>
         tx_GasFeeCap (inner tx) = word_of_int f))"
proof (intro conjI allI impI)
  fix tx s'
  assume run: "createBlobTx p c opts contract input blobData s = (Inr tx, s')"
  from run show "\<exists>header tip fee.
         HeaderByNumber c (opts_Context opts) None = Inr header \<and>
         resolvedTipCap c opts = Inr tip \<and>
         (opts_GasFeeCap opts = None \<longrightarrow>
            (\<exists>baseFee. BaseFee header = Some baseFee \<and> fee = tip + 2 * baseFee)) \<and>
         (\<forall>f. opts_GasFeeCap opts = Some f \<longrightarrow> fee = f) \<and>
         \<bar>fee\<bar> < 2 ^ 256 \<and>
         tx_GasFeeCap (inner tx) = word_of_int fee \<and>
         tx_GasTipCap (inner tx) = word_of_int tip \<and>
         (opts_GasLimit opts = 0 \<longrightarrow>
            CallEstimateGas (gasEstimateMsg opts contract input tip fee) \<in> set s')"
  proof (rule createBlobTx_Inr_fields)
    fix header tip fee
    assume H: "HeaderByNumber c (opts_Context opts) None = Inr header"
      and T: "resolvedTipCap c opts = Inr tip"
      and F: "resolvedFeeCap opts header tip = Some fee"
      and t256: "uint256_MustFromBig tip = Inr (tx_GasTipCap (inner tx))"
      and f256: "uint256_MustFromBig fee = Inr (tx_GasFeeCap (inner tx))"
      and s': "s' = s @ [CallHeaderByNumber None]
            @ (if opts_GasTipCap opts = None then [CallSuggestGasTipCap] else [])
            @ (if opts_GasLimit opts = 0
               then [CallEstimateGas (gasEstimateMsg opts contract input tip fee)] else [])
            @ (if opts_Nonce opts = None then [CallPendingNonceAt (opts_From opts)] else [])
            @ [CallChainID]"
    from F have none: "opts_GasFeeCap opts = None \<longrightarrow>
        (\<exists>baseFee. BaseFee header = Some baseFee \<and> fee = tip + 2 * baseFee)"
      by (auto simp: resolvedFeeCap_def split: option.splits)
    from F have some: "\<forall>f. opts_GasFeeCap opts = Some f \<longrightarrow> fee = f"
      by (auto simp: resolvedFeeCap_def split: option.splits)
    from s' have est: "opts_GasLimit opts = 0 \<longrightarrow>
        CallEstimateGas (gasEstimateMsg opts contract input tip fee) \<in> set s'"
      by simp
    from t256 have tip: "tx_GasTipCap (inner tx) = word_of_int tip"
      by (simp add: uint256_MustFromBig_Inr)
    from f256 have bound: "\<bar>fee\<bar> < 2 ^ 256"
      by (simp add: uint256_MustFromBig_Inr)
    from f256 have fee: "tx_GasFeeCap (inner tx) = word_of_int fee"
      by (simp add: uint256_MustFromBig_Inr)
    show ?thesis
      apply (rule exI [of _ header])
      apply (rule exI [of _ tip])
      apply (rule exI [of _ fee])
      apply (intro conjI)
      apply (rule H T none some bound fee tip est)+
      done
  qed
next
  fix header tip baseFee
  assume "opts_GasFeeCap opts = None \<and> BaseFee header = Some baseFee \<and>
      steps_succeed p c opts contract input blobData header tip (tip + 2 * baseFee)"
  then have "steps_succeed p c opts contract input blobData header tip (tip + 2 * baseFee)"
    by simp
  then obtain tx s' where
    run: "createBlobTx p c opts contract input blobData s = (Inr tx, s')" and
    fee: "tx_GasFeeCap (inner tx) = word_of_int (tip + 2 * baseFee)"
    by (rule steps_succeed_fields)
  show "\<exists>tx s'. createBlobTx p c opts contract input blobData s = (Inr tx, s') \<and>
         tx_GasFeeCap (inner tx) = word_of_int (tip + 2 * baseFee)"
    apply (rule exI [of _ tx])
    apply (rule exI [of _ s'])
    apply (intro conjI)
    apply (rule run fee)+
    done
next
  fix header tip f
  assume "opts_GasFeeCap opts = Some f \<and>
      steps_succeed p c opts contract input blobData header tip f"
  then have "steps_succeed p c opts contract input blobData header tip f"
    by simp
  then obtain tx s' where
    run: "createBlobTx p c opts contract input blobData s = (Inr tx, s')" and
    fee: "tx_GasFeeCap (inner tx) = word_of_int f"
    by (rule steps_succeed_fields)
  show "\<exists>tx s'. createBlobTx p c opts contract input blobData s = (Inr tx, s') \<and>
         tx_GasFeeCap (inner tx) = word_of_int f"
    apply (rule exI [of _ tx])
    apply (rule exI [of _ s'])
    apply (intro conjI)
    apply (rule run fee)+
    done
qed

theorem createBlobTx_fee_cap_witness:
  "map_sum id (tx_GasFeeCap \<circ> inner)
     (fst (createBlobTx example_protocol example_client example_opts None [] [] [])) =
       Inr (word_of_int (3 + 2 * 7)) \<and>
   map_sum id (tx_GasFeeCap \<circ> inner)
     (fst (createBlobTx example_protocol example_client
        (example_opts\<lparr>opts_GasFeeCap := Some 100\<rparr>) None [] [] [])) = Inr (word_of_int 100)"
proof -
  let ?opts = "example_opts\<lparr>opts_GasFeeCap := Some 100\<rparr>"
  have none: "opts_GasFeeCap example_opts = None \<and> BaseFee example_header = Some 7 \<and>
      steps_succeed example_protocol example_client example_opts None [] []
        example_header 3 (3 + 2 * 7)"
    by (simp add: steps_defs)
  have some: "opts_GasFeeCap ?opts = Some 100 \<and>
      steps_succeed example_protocol example_client ?opts None [] [] example_header 3 100"
    by (simp add: steps_defs)
  have "\<exists>tx s'. createBlobTx example_protocol example_client example_opts None [] [] [] =
          (Inr tx, s') \<and> tx_GasFeeCap (inner tx) = word_of_int (3 + 2 * 7)"
    using createBlobTx_fee_cap
      [of example_protocol example_client example_opts None "[]" "[]" "[]",
       THEN conjunct2, THEN conjunct1, rule_format, OF none] .
  moreover
  have "\<exists>tx s'. createBlobTx example_protocol example_client ?opts None [] [] [] =
          (Inr tx, s') \<and> tx_GasFeeCap (inner tx) = word_of_int 100"
    using createBlobTx_fee_cap
      [of example_protocol example_client ?opts None "[]" "[]" "[]",
       THEN conjunct2, THEN conjunct2, rule_format, OF some] .
  ultimately show ?thesis
    by auto
qed

section \<open>Nonce, gas limit, blob fee cap and chain id\<close>

text \<open>
  Claim C7, as amended. With an explicit nonce, \<^verbatim>\<open>createBlobTx\<close> never asks the network for
  the pending nonce, whatever it returns, and the nonce of the transaction it builds is
  the explicit nonce converted by \<^verbatim>\<open>Uint64\<close>: the low 64 bits of its absolute value, which
  is the explicit nonce itself exactly when that lies between 0 and \<open>2\<^sup>6\<^sup>4 - 1\<close>. Without
  an explicit nonce, the nonce of the transaction is the answer of the pending-nonce call
  for the sending account, and that call is recorded. When every step succeeds,
  \<^verbatim>\<open>createBlobTx\<close> does return such a transaction, and it then returns one for every
  explicit nonce put in place of the nonce option: no explicit nonce is refused.
\<close>

theorem createBlobTx_nonce:
  "(\<forall>r s'. createBlobTx p c opts contract input blobData s = (r, s') \<longrightarrow>
      (\<forall>n. opts_Nonce opts = Some n \<longrightarrow>
            (\<exists>t. s' = s @ t \<and> (\<forall>a. CallPendingNonceAt a \<notin> set t)) \<and>
            (\<forall>tx. r = Inr tx \<longrightarrow>
               tx_Nonce (inner tx) = big_Uint64 n \<and>
               uint (tx_Nonce (inner tx)) = \<bar>n\<bar> mod 2 ^ 64 \<and>
               (0 \<le> n \<and> n < 2 ^ 64 \<longrightarrow> uint (tx_Nonce (inner tx)) = n))) \<and>
      (opts_Nonce opts = None \<longrightarrow>
            (\<forall>tx. r = Inr tx \<longrightarrow>
               PendingNonceAt c (opts_Context opts) (opts_From opts) = Inr (tx_Nonce (inner tx)) \<and>
               (\<exists>t. s' = s @ t \<and> CallPendingNonceAt (opts_From opts) \<in> set t)))) \<and>
   (\<forall>header tip fee.
      steps_succeed p c opts contract input blobData header tip fee \<longrightarrow>
      (\<exists>tx s'. createBlobTx p c opts contract input blobData s = (Inr tx, s') \<and>
         (\<forall>n. opts_Nonce opts = Some n \<longrightarrow>
            tx_Nonce (inner tx) = big_Uint64 n \<and>
            (\<exists>t. s' = s @ t \<and> (\<forall>a. CallPendingNonceAt a \<notin> set t))) \<and>
         (opts_Nonce opts = None \<longrightarrow>
            PendingNonceAt c (opts_Context opts) (opts_From opts) = Inr (tx_Nonce (inner tx)) \<and>
            (\<exists>t. s' = s @ t \<and> CallPendingNonceAt (opts_From opts) \<in> set t)))) \<and>
   (\<forall>header tip fee n.
      steps_succeed p c opts contract input blobData header tip fee \<longrightarrow>
      (\<exists>tx s'. createBlobTx p c (opts\<lparr>opts_Nonce := Some n\<rparr>) contract input blobData s =
                  (Inr tx, s') \<and>
         tx_Nonce (inner tx) = big_Uint64 n \<and>
         uint (tx_Nonce (inner tx)) = \<bar>n\<bar> mod 2 ^ 64))"
proof -
  have part1: "(\<forall>n. opts_Nonce opts = Some n \<longrightarrow>
            (\<exists>t. s' = s @ t \<and> (\<forall>a. CallPendingNonceAt a \<notin> set t)) \<and>
            (\<forall>tx. r = Inr tx \<longrightarrow>
               tx_Nonce (inner tx) = big_Uint64 n \<and>
               uint (tx_Nonce (inner tx)) = \<bar>n\<bar> mod 2 ^ 64 \<and>
               (0 \<le> n \<and> n < 2 ^ 64 \<longrightarrow> uint (tx_Nonce (inner tx)) = n))) \<and>
      (opts_Nonce opts = None \<longrightarrow>
            (\<forall>tx. r = Inr tx \<longrightarrow>
               PendingNonceAt c (opts_Context opts) (opts_From opts) = Inr (tx_Nonce (inner tx)) \<and>
               (\<exists>t. s' = s @ t \<and> CallPendingNonceAt (opts_From opts) \<in> set t)))"
    if assms: "createBlobTx p c opts contract input blobData s = (r, s')"
    for r s' p c opts contract input blobData s
  proof (intro conjI allI impI)
  fix n
  assume n: "opts_Nonce opts = Some n"
  from createBlobTx_calls [of p c opts contract input blobData] assms
  obtain t where t: "s' = s @ t"
    "set t \<subseteq> {CallHeaderByNumber None, CallChainID}
      \<union> {k. k = CallSuggestGasTipCap \<and> opts_GasTipCap opts = None}
      \<union> {k. (\<exists>m. k = CallEstimateGas m) \<and> opts_GasLimit opts = 0}
      \<union> {k. k = CallPendingNonceAt (opts_From opts) \<and> opts_Nonce opts = None}"
    unfolding calls_within_def by blast
  from t(2) n have "\<forall>a. CallPendingNonceAt a \<notin> set t"
    by auto
  with t(1) show "\<exists>t. s' = s @ t \<and> (\<forall>a. CallPendingNonceAt a \<notin> set t)"
    by blast
next
  fix n tx
  assume n: "opts_Nonce opts = Some n" and r: "r = Inr tx"
  from assms r have run: "createBlobTx p c opts contract input blobData s = (Inr tx, s')"
    by simp
  from run have "(case opts_Nonce opts of
        None \<Rightarrow> PendingNonceAt c (opts_Context opts) (opts_From opts)
      | Some n \<Rightarrow> Inr (big_Uint64 n)) = Inr (tx_Nonce (inner tx))"
    by (rule createBlobTx_Inr_fields)
  with n show eq: "tx_Nonce (inner tx) = big_Uint64 n"
    by simp
  then show mod: "uint (tx_Nonce (inner tx)) = \<bar>n\<bar> mod 2 ^ 64"
    by (simp add: uint_big_Uint64)
  assume "0 \<le> n \<and> n < 2 ^ 64"
  with mod show "uint (tx_Nonce (inner tx)) = n"
    by simp
next
  fix tx
  assume none: "opts_Nonce opts = None" and r: "r = Inr tx"
  from assms r have run: "createBlobTx p c opts contract input blobData s = (Inr tx, s')"
    by simp
  from run have "(case opts_Nonce opts of
        None \<Rightarrow> PendingNonceAt c (opts_Context opts) (opts_From opts)
      | Some n \<Rightarrow> Inr (big_Uint64 n)) = Inr (tx_Nonce (inner tx))"
    by (rule createBlobTx_Inr_fields)
  with none
  show "PendingNonceAt c (opts_Context opts) (opts_From opts) = Inr (tx_Nonce (inner tx))"
    by simp
  from run obtain tip fee where
    "s' = s @ [CallHeaderByNumber None]
            @ (if opts_GasTipCap opts = None then [CallSuggestGasTipCap] else [])
            @ (if opts_GasLimit opts = 0
               then [CallEstimateGas (gasEstimateMsg opts contract input tip fee)] else [])
            @ (if opts_Nonce opts = None then [CallPendingNonceAt (opts_From opts)] else [])
            @ [CallChainID]"
    by (rule createBlobTx_Inr_fields)
  with none show "\<exists>t. s' = s @ t \<and> CallPendingNonceAt (opts_From opts) \<in> set t"
    by simp
  qed
  have part2: "\<exists>tx s'. createBlobTx p c opts contract input blobData s = (Inr tx, s') \<and>
         (\<forall>n. opts_Nonce opts = Some n \<longrightarrow>
            tx_Nonce (inner tx) = big_Uint64 n \<and>
            (\<exists>t. s' = s @ t \<and> (\<forall>a. CallPendingNonceAt a \<notin> set t))) \<and>
         (opts_Nonce opts = None \<longrightarrow>
            PendingNonceAt c (opts_Context opts) (opts_From opts) = Inr (tx_Nonce (inner tx)) \<and>
            (\<exists>t. s' = s @ t \<and> CallPendingNonceAt (opts_From opts) \<in> set t))"
    if steps: "steps_succeed p c opts contract input blobData header tip fee"
    for header tip fee p c opts contract input blobData s
  proof -
    from steps obtain tx s' where
      run: "createBlobTx p c opts contract input blobData s = (Inr tx, s')"
      by (rule steps_succeed_run)
    from part1 [OF run] have
      some: "\<forall>n. opts_Nonce opts = Some n \<longrightarrow>
            tx_Nonce (inner tx) = big_Uint64 n \<and>
            (\<exists>t. s' = s @ t \<and> (\<forall>a. CallPendingNonceAt a \<notin> set t))"
      and none: "opts_Nonce opts = None \<longrightarrow>
            PendingNonceAt c (opts_Context opts) (opts_From opts) = Inr (tx_Nonce (inner tx)) \<and>
            (\<exists>t. s' = s @ t \<and> CallPendingNonceAt (opts_From opts) \<in> set t)"
      by simp_all
    show ?thesis
      apply (rule exI [of _ tx])
      apply (rule exI [of _ s'])
      apply (intro conjI)
      apply (rule run some none)+
      done
  qed
  have part3: "\<exists>tx s'. createBlobTx p c (opts\<lparr>opts_Nonce := Some n\<rparr>) contract input blobData s =
                  (Inr tx, s') \<and>
         tx_Nonce (inner tx) = big_Uint64 n \<and>
         uint (tx_Nonce (inner tx)) = \<bar>n\<bar> mod 2 ^ 64"
    if steps: "steps_succeed p c opts contract input blobData header tip fee"
    for header tip fee n
  proof -
    from steps have "steps_succeed p c (opts\<lparr>opts_Nonce := Some n\<rparr>) contract input blobData
        header tip fee"
      by (auto simp: steps_succeed_def resolvedTipCap_def resolvedFeeCap_def gasEstimateMsg_def
          split: option.splits)
    from part2 [OF this, of s] obtain tx s' where
      run: "createBlobTx p c (opts\<lparr>opts_Nonce := Some n\<rparr>) contract input blobData s =
              (Inr tx, s')" and
      nonce: "tx_Nonce (inner tx) = big_Uint64 n"
      by auto
    from nonce have "uint (tx_Nonce (inner tx)) = \<bar>n\<bar> mod 2 ^ 64"
      by (simp add: uint_big_Uint64)
    with run nonce show ?thesis
      by (intro exI conjI)
  qed
  show ?thesis
    apply (intro conjI)
    apply ((rule allI impI)+, erule part1)
    apply ((rule allI impI)+, erule part2)
    apply ((rule allI impI)+, erule part3)
    done
qed

theorem createBlobTx_nonce_witness:
  "map_sum id (tx_Nonce \<circ> inner)
     (fst (createBlobTx example_protocol example_client example_opts None [] [] [])) = Inr 9 \<and>
   CallPendingNonceAt 1 \<in>
     set (snd (createBlobTx example_protocol example_client example_opts None [] [] [])) \<and>
   map_sum id (tx_Nonce \<circ> inner)
     (fst (createBlobTx example_protocol example_client
        (example_opts\<lparr>opts_Nonce := Some 42\<rparr>) None [] [] [])) = Inr 42 \<and>
   CallPendingNonceAt 1 \<notin>
     set (snd (createBlobTx example_protocol example_client
        (example_opts\<lparr>opts_Nonce := Some 42\<rparr>) None [] [] [])) \<and>
   map_sum id (tx_Nonce \<circ> inner)
     (fst (createBlobTx example_protocol example_client
        (example_opts\<lparr>opts_Nonce := Some (- 7)\<rparr>) None [] [] [])) = Inr 7"
proof -
  let ?opts = "example_opts\<lparr>opts_Nonce := Some 42\<rparr>"
  have steps: "steps_succeed example_protocol example_client example_opts None [] []
      example_header 3 17"
    by (simp add: steps_defs)
  have steps': "steps_succeed example_protocol example_client ?opts None [] []
      example_header 3 17"
    by (simp add: steps_defs)
  have "\<exists>tx s'. createBlobTx example_protocol example_client example_opts None [] [] [] =
          (Inr tx, s') \<and>
         (\<forall>n. opts_Nonce example_opts = Some n \<longrightarrow>
            tx_Nonce (inner tx) = big_Uint64 n \<and>
            (\<exists>t. s' = [] @ t \<and> (\<forall>a. CallPendingNonceAt a \<notin> set t))) \<and>
         (opts_Nonce example_opts = None \<longrightarrow>
            PendingNonceAt example_client (opts_Context example_opts) (opts_From example_opts) =
              Inr (tx_Nonce (inner tx)) \<and>
            (\<exists>t. s' = [] @ t \<and> CallPendingNonceAt (opts_From example_opts) \<in> set t))"
    using createBlobTx_nonce
      [of example_protocol example_client example_opts None "[]" "[]" "[]",
       THEN conjunct2, THEN conjunct1, rule_format, OF steps] .
  then have a: "map_sum id (tx_Nonce \<circ> inner)
       (fst (createBlobTx example_protocol example_client example_opts None [] [] [])) = Inr 9 \<and>
     CallPendingNonceAt 1 \<in>
       set (snd (createBlobTx example_protocol example_client example_opts None [] [] []))"
    by (auto simp: example_opts_def example_client_def)
  have "\<exists>tx s'. createBlobTx example_protocol example_client ?opts None [] [] [] =
          (Inr tx, s') \<and>
         (\<forall>n. opts_Nonce ?opts = Some n \<longrightarrow>
            tx_Nonce (inner tx) = big_Uint64 n \<and>
            (\<exists>t. s' = [] @ t \<and> (\<forall>a. CallPendingNonceAt a \<notin> set t))) \<and>
         (opts_Nonce ?opts = None \<longrightarrow>
            PendingNonceAt example_client (opts_Context ?opts) (opts_From ?opts) =
              Inr (tx_Nonce (inner tx)) \<and>
            (\<exists>t. s' = [] @ t \<and> CallPendingNonceAt (opts_From ?opts) \<in> set t))"
    using createBlobTx_nonce
      [of example_protocol example_client ?opts None "[]" "[]" "[]",
       THEN conjunct2, THEN conjunct1, rule_format, OF steps'] .
  then have b: "map_sum id (tx_Nonce \<circ> inner)
       (fst (createBlobTx example_protocol example_client ?opts None [] [] [])) = Inr 42 \<and>
     CallPendingNonceAt 1 \<notin>
       set (snd (createBlobTx example_protocol example_client ?opts None [] [] []))"
    by (auto simp: big_Uint64_def)
  have "\<exists>tx s'. createBlobTx example_protocol example_client
          (example_opts\<lparr>opts_Nonce := Some (- 7)\<rparr>) None [] [] [] = (Inr tx, s') \<and>
         tx_Nonce (inner tx) = big_Uint64 (- 7) \<and>
         uint (tx_Nonce (inner tx)) = \<bar>- 7\<bar> mod 2 ^ 64"
    using createBlobTx_nonce
      [of example_protocol example_client example_opts None "[]" "[]" "[]",
       THEN conjunct2, THEN conjunct2, rule_format, OF steps, of "- 7"] .
  then have c: "map_sum id (tx_Nonce \<circ> inner)
       (fst (createBlobTx example_protocol example_client
          (example_opts\<lparr>opts_Nonce := Some (- 7)\<rparr>) None [] [] [])) = Inr 7"
    by (auto simp: big_Uint64_def)
  from a b c show ?thesis
    by simp
qed

text \<open>
  Claim C7 as the specification words it fails: an explicit nonce of \<open>2\<^sup>6\<^sup>4 + 42\<close> is
  accepted, and the transaction that is built has nonce 42.
\<close>

theorem createBlobTx_nonce_verbatim_counterexample:
  "map_sum id (tx_Nonce \<circ> inner)
     (fst (createBlobTx example_protocol example_client
        (example_opts\<lparr>opts_Nonce := Some (2 ^ 64 + 42)\<rparr>) None [] [] [])) = Inr 42 \<and>
   uint (42 :: uint64) \<noteq> 2 ^ 64 + 42"
  by (simp add: eval_defs io_defs example_defs)

text \<open>
  Claim C8. With a gas limit in the options (a value other than 0), \<^verbatim>\<open>createBlobTx\<close> makes
  no gas-estimate call, whatever it returns, and the transaction it builds has that gas
  limit. Otherwise the gas limit of the transaction is the answer of the one gas-estimate
  call, whose message holds the sender, the recipient, the resolved tip cap and fee cap
  and the input bytes; the blob data is not part of the message. When every step
  succeeds, \<^verbatim>\<open>createBlobTx\<close> does return such a transaction, after that call when there is
  no gas limit.
\<close>

theorem createBlobTx_gas_limit:
  "(\<forall>r s'. createBlobTx p c opts contract input blobData s = (r, s') \<longrightarrow>
      (opts_GasLimit opts \<noteq> 0 \<longrightarrow>
            (\<exists>t. s' = s @ t \<and> (\<forall>m. CallEstimateGas m \<notin> set t)) \<and>
            (\<forall>tx. r = Inr tx \<longrightarrow> tx_Gas (inner tx) = opts_GasLimit opts)) \<and>
      (opts_GasLimit opts = 0 \<longrightarrow>
            (\<forall>tx. r = Inr tx \<longrightarrow>
               (\<exists>header tip fee t.
                  HeaderByNumber c (opts_Context opts) None = Inr header \<and>
                  resolvedTipCap c opts = Inr tip \<and>
                  resolvedFeeCap opts header tip = Some fee \<and>
                  EstimateGas c (opts_Context opts)
                    \<lparr>msg_From = opts_From opts, msg_To = contract, msg_GasPrice = None,
                     msg_GasTipCap = Some tip, msg_GasFeeCap = Some fee,
                     msg_Value = None, msg_Data = input\<rparr> = Inr (tx_Gas (inner tx)) \<and>
                  s' = s @ t \<and>
                  (\<forall>m. CallEstimateGas m \<in> set t \<longleftrightarrow>
                       m = \<lparr>msg_From = opts_From opts, msg_To = contract, msg_GasPrice = None,
                            msg_GasTipCap = Some tip, msg_GasFeeCap = Some fee,
                            msg_Value = None, msg_Data = input\<rparr>))))) \<and>
   (\<forall>header tip fee.
      steps_succeed p c opts contract input blobData header tip fee \<longrightarrow>
      (\<exists>tx s' t. createBlobTx p c opts contract input blobData s = (Inr tx, s') \<and>
         s' = s @ t \<and>
         (opts_GasLimit opts \<noteq> 0 \<longrightarrow>
            tx_Gas (inner tx) = opts_GasLimit opts \<and> (\<forall>m. CallEstimateGas m \<notin> set t)) \<and>
         (opts_GasLimit opts = 0 \<longrightarrow>
            EstimateGas c (opts_Context opts)
              \<lparr>msg_From = opts_From opts, msg_To = contract, msg_GasPrice = None,
               msg_GasTipCap = Some tip, msg_GasFeeCap = Some fee,
               msg_Value = None, msg_Data = input\<rparr> = Inr (tx_Gas (inner tx)) \<and>
            CallEstimateGas
              \<lparr>msg_From = opts_From opts, msg_To = contract, msg_GasPrice = None,
               msg_GasTipCap = Some tip, msg_GasFeeCap = Some fee,
               msg_Value = None, msg_Data = input\<rparr> \<in> set t)))"
proof -
  have part1: "(opts_GasLimit opts \<noteq> 0 \<longrightarrow>
            (\<exists>t. s' = s @ t \<and> (\<forall>m. CallEstimateGas m \<notin> set t)) \<and>
            (\<forall>tx. r = Inr tx \<longrightarrow> tx_Gas (inner tx) = opts_GasLimit opts)) \<and>
      (opts_GasLimit opts = 0 \<longrightarrow>
            (\<forall>tx. r = Inr tx \<longrightarrow>
               (\<exists>header tip fee t.
                  HeaderByNumber c (opts_Context opts) None = Inr header \<and>
                  resolvedTipCap c opts = Inr tip \<and>
                  resolvedFeeCap opts header tip = Some fee \<and>
                  EstimateGas c (opts_Context opts)
                    \<lparr>msg_From = opts_From opts, msg_To = contract, msg_GasPrice = None,
                     msg_GasTipCap = Some tip, msg_GasFeeCap = Some fee,
                     msg_Value = None, msg_Data = input\<rparr> = Inr (tx_Gas (inner tx)) \<and>
                  s' = s @ t \<and>
                  (\<forall>m. CallEstimateGas m \<in> set t \<longleftrightarrow>
                       m = \<lparr>msg_From = opts_From opts, msg_To = contract, msg_GasPrice = None,
                            msg_GasTipCap = Some tip, msg_GasFeeCap = Some fee,
                            msg_Value = None, msg_Data = input\<rparr>))))"
    if assms: "createBlobTx p c opts contract input blobData s = (r, s')" for r s'
  proof (intro conjI allI impI)
  assume g: "opts_GasLimit opts \<noteq> 0"
  from createBlobTx_calls [of p c opts contract input blobData] assms
  obtain t where t: "s' = s @ t"
    "set t \<subseteq> {CallHeaderByNumber None, CallChainID}
      \<union> {k. k = CallSuggestGasTipCap \<and> opts_GasTipCap opts = None}
      \<union> {k. (\<exists>m. k = CallEstimateGas m) \<and> opts_GasLimit opts = 0}
      \<union> {k. k = CallPendingNonceAt (opts_From opts) \<and> opts_Nonce opts = None}"
    unfolding calls_within_def by blast
  from t(2) g have "\<forall>m. CallEstimateGas m \<notin> set t"
    by auto
  with t(1) show "\<exists>t. s' = s @ t \<and> (\<forall>m. CallEstimateGas m \<notin> set t)"
    by blast
next
  fix tx
  assume g: "opts_GasLimit opts \<noteq> 0" and r: "r = Inr tx"
  from assms r have run: "createBlobTx p c opts contract input blobData s = (Inr tx, s')"
    by simp
  from run obtain tip fee where
    "(if opts_GasLimit opts = 0
      then EstimateGas c (opts_Context opts) (gasEstimateMsg opts contract input tip fee)
      else Inr (opts_GasLimit opts)) = Inr (tx_Gas (inner tx))"
    by (rule createBlobTx_Inr_fields)
  with g show "tx_Gas (inner tx) = opts_GasLimit opts"
    by simp
next
  fix tx
  assume g: "opts_GasLimit opts = 0" and r: "r = Inr tx"
  from assms r have run: "createBlobTx p c opts contract input blobData s = (Inr tx, s')"
    by simp
  let ?msg = "\<lambda>tip fee. \<lparr>msg_From = opts_From opts, msg_To = contract, msg_GasPrice = None,
                     msg_GasTipCap = Some tip, msg_GasFeeCap = Some fee,
                     msg_Value = None, msg_Data = input\<rparr>"
  from run show "\<exists>header tip fee t.
                  HeaderByNumber c (opts_Context opts) None = Inr header \<and>
                  resolvedTipCap c opts = Inr tip \<and>
                  resolvedFeeCap opts header tip = Some fee \<and>
                  EstimateGas c (opts_Context opts) (?msg tip fee) = Inr (tx_Gas (inner tx)) \<and>
                  s' = s @ t \<and>
                  (\<forall>m. CallEstimateGas m \<in> set t \<longleftrightarrow> m = ?msg tip fee)"
  proof (rule createBlobTx_Inr_fields)
    fix header tip fee
    assume H: "HeaderByNumber c (opts_Context opts) None = Inr header"
      and T: "resolvedTipCap c opts = Inr tip"
      and F: "resolvedFeeCap opts header tip = Some fee"
      and G: "(if opts_GasLimit opts = 0
          then EstimateGas c (opts_Context opts) (gasEstimateMsg opts contract input tip fee)
          else Inr (opts_GasLimit opts)) = Inr (tx_Gas (inner tx))"
      and s': "s' = s @ [CallHeaderByNumber None]
            @ (if opts_GasTipCap opts = None then [CallSuggestGasTipCap] else [])
            @ (if opts_GasLimit opts = 0
               then [CallEstimateGas (gasEstimateMsg opts contract input tip fee)] else [])
            @ (if opts_Nonce opts = None then [CallPendingNonceAt (opts_From opts)] else [])
            @ [CallChainID]"
    define t where "t = [CallHeaderByNumber None]
            @ (if opts_GasTipCap opts = None then [CallSuggestGasTipCap] else [])
            @ [CallEstimateGas (?msg tip fee)]
            @ (if opts_Nonce opts = None then [CallPendingNonceAt (opts_From opts)] else [])
            @ [CallChainID]"
    from G g have est: "EstimateGas c (opts_Context opts) (?msg tip fee) = Inr (tx_Gas (inner tx))"
      by (simp add: gasEstimateMsg_def)
    from s' g have app: "s' = s @ t"
      by (simp add: t_def gasEstimateMsg_def)
    have only: "\<forall>m. CallEstimateGas m \<in> set t \<longleftrightarrow> m = ?msg tip fee"
      by (auto simp: t_def)
    show ?thesis
      apply (rule exI [of _ header])
      apply (rule exI [of _ tip])
      apply (rule exI [of _ fee])
      apply (rule exI [of _ t])
      apply (intro conjI)
      apply (rule H T F est app only)+
      done
  qed
  qed
  have part2: "\<exists>tx s' t. createBlobTx p c opts contract input blobData s = (Inr tx, s') \<and>
         s' = s @ t \<and>
         (opts_GasLimit opts \<noteq> 0 \<longrightarrow>
            tx_Gas (inner tx) = opts_GasLimit opts \<and> (\<forall>m. CallEstimateGas m \<notin> set t)) \<and>
         (opts_GasLimit opts = 0 \<longrightarrow>
            EstimateGas c (opts_Context opts)
              \<lparr>msg_From = opts_From opts, msg_To = contract, msg_GasPrice = None,
               msg_GasTipCap = Some tip, msg_GasFeeCap = Some fee,
               msg_Value = None, msg_Data = input\<rparr> = Inr (tx_Gas (inner tx)) \<and>
            CallEstimateGas
              \<lparr>msg_From = opts_From opts, msg_To = contract, msg_GasPrice = None,
               msg_GasTipCap = Some tip, msg_GasFeeCap = Some fee,
               msg_Value = None, msg_Data = input\<rparr> \<in> set t)"
    if steps: "steps_succeed p c opts contract input blobData header tip fee"
    for header tip fee
  proof -
    from steps obtain tx s' where
      run: "createBlobTx p c opts contract input blobData s = (Inr tx, s')" and
      G: "(if opts_GasLimit opts = 0
          then EstimateGas c (opts_Context opts) (gasEstimateMsg opts contract input tip fee)
          else Inr (opts_GasLimit opts)) = Inr (tx_Gas (inner tx))" and
      s': "s' = s @ [CallHeaderByNumber None]
            @ (if opts_GasTipCap opts = None then [CallSuggestGasTipCap] else [])
            @ (if opts_GasLimit opts = 0
               then [CallEstimateGas (gasEstimateMsg opts contract input tip fee)] else [])
            @ (if opts_Nonce opts = None then [CallPendingNonceAt (opts_From opts)] else [])
            @ [CallChainID]"
      by (rule steps_succeed_fields)
    define t where "t = [CallHeaderByNumber None]
            @ (if opts_GasTipCap opts = None then [CallSuggestGasTipCap] else [])
            @ (if opts_GasLimit opts = 0
               then [CallEstimateGas (gasEstimateMsg opts contract input tip fee)] else [])
            @ (if opts_Nonce opts = None then [CallPendingNonceAt (opts_From opts)] else [])
            @ [CallChainID]"
    from s' have app: "s' = s @ t"
      by (simp add: t_def)
    from G have lim: "opts_GasLimit opts \<noteq> 0 \<longrightarrow>
            tx_Gas (inner tx) = opts_GasLimit opts \<and> (\<forall>m. CallEstimateGas m \<notin> set t)"
      by (auto simp: t_def)
    from G have est: "opts_GasLimit opts = 0 \<longrightarrow>
            EstimateGas c (opts_Context opts)
              \<lparr>msg_From = opts_From opts, msg_To = contract, msg_GasPrice = None,
               msg_GasTipCap = Some tip, msg_GasFeeCap = Some fee,
               msg_Value = None, msg_Data = input\<rparr> = Inr (tx_Gas (inner tx)) \<and>
            CallEstimateGas
              \<lparr>msg_From = opts_From opts, msg_To = contract, msg_GasPrice = None,
               msg_GasTipCap = Some tip, msg_GasFeeCap = Some fee,
               msg_Value = None, msg_Data = input\<rparr> \<in> set t"
      by (auto simp: t_def gasEstimateMsg_def)
    show ?thesis
      apply (rule exI [of _ tx])
      apply (rule exI [of _ s'])
      apply (rule exI [of _ t])
      apply (intro conjI)
      apply (rule run app lim est)+
      done
  qed
  show ?thesis
    apply (intro conjI)
    apply ((rule allI impI)+, erule part1)
    apply ((rule allI impI)+, erule part2)
    done
qed

theorem createBlobTx_gas_limit_witness:
  "map_sum id (tx_Gas \<circ> inner)
     (fst (createBlobTx example_protocol example_client example_opts None [] [] [])) =
       Inr 21000 \<and>
   CallEstimateGas
     \<lparr>msg_From = 1, msg_To = None, msg_GasPrice = None, msg_GasTipCap = Some 3,
      msg_GasFeeCap = Some 17, msg_Value = None, msg_Data = []\<rparr> \<in>
     set (snd (createBlobTx example_protocol example_client example_opts None [] [] [])) \<and>
   map_sum id (tx_Gas \<circ> inner)
     (fst (createBlobTx example_protocol example_client
        (example_opts\<lparr>opts_GasLimit := 50000\<rparr>) None [] [] [])) = Inr 50000 \<and>
   CallEstimateGas
     \<lparr>msg_From = 1, msg_To = None, msg_GasPrice = None, msg_GasTipCap = Some 3,
      msg_GasFeeCap = Some 17, msg_Value = None, msg_Data = []\<rparr> \<notin>
     set (snd (createBlobTx example_protocol example_client
        (example_opts\<lparr>opts_GasLimit := 50000\<rparr>) None [] [] []))"
proof -
  let ?opts = "example_opts\<lparr>opts_GasLimit := 50000\<rparr>"
  have steps: "steps_succeed example_protocol example_client example_opts None [] []
      example_header 3 17"
    by (simp add: steps_defs)
  have steps': "steps_succeed example_protocol example_client ?opts None [] []
      example_header 3 17"
    by (simp add: steps_defs)
  have a: "map_sum id (tx_Gas \<circ> inner)
       (fst (createBlobTx example_protocol example_client example_opts None [] [] [])) =
         Inr 21000 \<and>
     CallEstimateGas
       \<lparr>msg_From = 1, msg_To = None, msg_GasPrice = None, msg_GasTipCap = Some 3,
        msg_GasFeeCap = Some 17, msg_Value = None, msg_Data = []\<rparr> \<in>
       set (snd (createBlobTx example_protocol example_client example_opts None [] [] []))"
    using createBlobTx_gas_limit
      [of example_protocol example_client example_opts None "[]" "[]" "[]",
       THEN conjunct2, rule_format, OF steps]
    by (auto simp: example_opts_def example_client_def)
  have b: "map_sum id (tx_Gas \<circ> inner)
       (fst (createBlobTx example_protocol example_client ?opts None [] [] [])) = Inr 50000 \<and>
     CallEstimateGas
       \<lparr>msg_From = 1, msg_To = None, msg_GasPrice = None, msg_GasTipCap = Some 3,
        msg_GasFeeCap = Some 17, msg_Value = None, msg_Data = []\<rparr> \<notin>
       set (snd (createBlobTx example_protocol example_client ?opts None [] [] []))"
    using createBlobTx_gas_limit
      [of example_protocol example_client ?opts None "[]" "[]" "[]",
       THEN conjunct2, rule_format, OF steps']
    by (auto simp: example_opts_def)
  from a b show ?thesis
    by simp
qed

text \<open>
  Claim C9. The blob fee cap of the transaction that \<^verbatim>\<open>createBlobTx\<close> returns is the result
  of \<^verbatim>\<open>eip4844.CalcBlobFee\<close>, converted to 256 bits, at the excess blob gas of the fetched
  header when the header has one, and at 100066 when it has none. When every step
  succeeds, \<^verbatim>\<open>createBlobTx\<close> does return such a transaction, for a header with excess blob
  gas and for one without.
\<close>

theorem createBlobTx_blob_fee_cap:
  "(\<forall>tx s'. createBlobTx p c opts contract input blobData s = (Inr tx, s') \<longrightarrow>
      (\<exists>header.
         HeaderByNumber c (opts_Context opts) None = Inr header \<and>
         (\<forall>e. ExcessBlobGas header = Some e \<longrightarrow>
            tx_BlobFeeCap (inner tx) = word_of_int (CalcBlobFee p e) \<and>
            \<bar>CalcBlobFee p e\<bar> < 2 ^ 256) \<and>
         (ExcessBlobGas header = None \<longrightarrow>
            tx_BlobFeeCap (inner tx) = word_of_int (CalcBlobFee p 100066) \<and>
            \<bar>CalcBlobFee p 100066\<bar> < 2 ^ 256))) \<and>
   (\<forall>header tip fee.
      steps_succeed p c opts contract input blobData header tip fee \<longrightarrow>
      (\<exists>tx s'. createBlobTx p c opts contract input blobData s = (Inr tx, s') \<and>
         (\<forall>e. ExcessBlobGas header = Some e \<longrightarrow>
            tx_BlobFeeCap (inner tx) = word_of_int (CalcBlobFee p e)) \<and>
         (ExcessBlobGas header = None \<longrightarrow>
            tx_BlobFeeCap (inner tx) = word_of_int (CalcBlobFee p 100066))))"
proof (intro conjI allI impI)
  fix tx s'
  assume run: "createBlobTx p c opts contract input blobData s = (Inr tx, s')"
  from run show "\<exists>header.
         HeaderByNumber c (opts_Context opts) None = Inr header \<and>
         (\<forall>e. ExcessBlobGas header = Some e \<longrightarrow>
            tx_BlobFeeCap (inner tx) = word_of_int (CalcBlobFee p e) \<and>
            \<bar>CalcBlobFee p e\<bar> < 2 ^ 256) \<and>
         (ExcessBlobGas header = None \<longrightarrow>
            tx_BlobFeeCap (inner tx) = word_of_int (CalcBlobFee p 100066) \<and>
            \<bar>CalcBlobFee p 100066\<bar> < 2 ^ 256)"
  proof (rule createBlobTx_Inr_fields)
    fix header
    assume H: "HeaderByNumber c (opts_Context opts) None = Inr header"
      and B: "uint256_MustFromBig
         (CalcBlobFee p (case ExcessBlobGas header of None \<Rightarrow> 100066 | Some e \<Rightarrow> e)) =
       Inr (tx_BlobFeeCap (inner tx))"
    from B have some: "\<forall>e. ExcessBlobGas header = Some e \<longrightarrow>
          tx_BlobFeeCap (inner tx) = word_of_int (CalcBlobFee p e) \<and>
          \<bar>CalcBlobFee p e\<bar> < 2 ^ 256"
      by (auto simp: uint256_MustFromBig_Inr)
    from B have none: "ExcessBlobGas header = None \<longrightarrow>
          tx_BlobFeeCap (inner tx) = word_of_int (CalcBlobFee p 100066) \<and>
          \<bar>CalcBlobFee p 100066\<bar> < 2 ^ 256"
      by (auto simp: uint256_MustFromBig_Inr)
    show ?thesis
      apply (rule exI [of _ header])
      apply (intro conjI)
      apply (rule H some none)+
      done
  qed
next
  fix header tip fee
  assume "steps_succeed p c opts contract input blobData header tip fee"
  then obtain tx s' where
    run: "createBlobTx p c opts contract input blobData s = (Inr tx, s')" and
    blob: "tx_BlobFeeCap (inner tx) =
       word_of_int (CalcBlobFee p (case ExcessBlobGas header of None \<Rightarrow> 100066 | Some e \<Rightarrow> e))"
    by (rule steps_succeed_fields)
  from blob have some: "\<forall>e. ExcessBlobGas header = Some e \<longrightarrow>
            tx_BlobFeeCap (inner tx) = word_of_int (CalcBlobFee p e)"
    by simp
  from blob have none: "ExcessBlobGas header = None \<longrightarrow>
            tx_BlobFeeCap (inner tx) = word_of_int (CalcBlobFee p 100066)"
    by simp
  show "\<exists>tx s'. createBlobTx p c opts contract input blobData s = (Inr tx, s') \<and>
         (\<forall>e. ExcessBlobGas header = Some e \<longrightarrow>
            tx_BlobFeeCap (inner tx) = word_of_int (CalcBlobFee p e)) \<and>
         (ExcessBlobGas header = None \<longrightarrow>
            tx_BlobFeeCap (inner tx) = word_of_int (CalcBlobFee p 100066))"
    apply (rule exI [of _ tx])
    apply (rule exI [of _ s'])
    apply (intro conjI)
    apply (rule run some none)+
    done
qed

theorem createBlobTx_blob_fee_cap_witness:
  "map_sum id (tx_BlobFeeCap \<circ> inner)
     (fst (createBlobTx example_protocol example_client example_opts None [] [] [])) =
       Inr (word_of_int (CalcBlobFee example_protocol 5)) \<and>
   map_sum id (tx_BlobFeeCap \<circ> inner)
     (fst (createBlobTx example_protocol
        (example_client\<lparr>HeaderByNumber := (\<lambda>ctx n. Inr \<lparr>BaseFee = Some 7, ExcessBlobGas = None\<rparr>)\<rparr>)
        example_opts None [] [] [])) = Inr (word_of_int (CalcBlobFee example_protocol 100066)) \<and>
   CalcBlobFee example_protocol 5 = 6 \<and> CalcBlobFee example_protocol 100066 = 100067"
proof -
  let ?h = "\<lparr>BaseFee = Some 7, ExcessBlobGas = None\<rparr>"
  let ?c = "example_client\<lparr>HeaderByNumber := (\<lambda>ctx n. Inr ?h)\<rparr>"
  have steps: "steps_succeed example_protocol example_client example_opts None [] []
      example_header 3 17"
    by (simp add: steps_defs)
  have steps': "steps_succeed example_protocol ?c example_opts None [] [] ?h 3 17"
    by (simp add: steps_defs)
  have a: "map_sum id (tx_BlobFeeCap \<circ> inner)
       (fst (createBlobTx example_protocol example_client example_opts None [] [] [])) =
         Inr (word_of_int (CalcBlobFee example_protocol 5))"
    using createBlobTx_blob_fee_cap
      [of example_protocol example_client example_opts None "[]" "[]" "[]",
       THEN conjunct2, rule_format, OF steps]
    by (auto simp: example_header_def)
  have b: "map_sum id (tx_BlobFeeCap \<circ> inner)
       (fst (createBlobTx example_protocol ?c example_opts None [] [] [])) =
         Inr (word_of_int (CalcBlobFee example_protocol 100066))"
    using createBlobTx_blob_fee_cap
      [of example_protocol ?c example_opts None "[]" "[]" "[]",
       THEN conjunct2, rule_format, OF steps']
    by auto
  have c: "CalcBlobFee example_protocol 5 = 6 \<and> CalcBlobFee example_protocol 100066 = 100067"
    by (simp add: example_protocol_def)
  from a b c show ?thesis
    by simp
qed



end
